theory Spec2Isabelle
  imports Main "HOL-Library.Word"
begin

section \<open>Data model\<close>

text \<open>
  A \<open>const char*\<close> is either the null pointer (\<open>None\<close>) or a C string.
\<close>

type_synonym c_str = "string option"

text \<open>
  Modelled from the spec: the JSON Accessor (\<open>cJSON.h\<close> is included by the provider but
  is not among the source files). A document is a DOM-style value with lookup by key.
  The provider reads three things of a node: its children by name
  (\<open>cJSON_GetObjectItem\<close>), its \<open>valuestring\<close> (a \<open>char*\<close>, null on a node that is
  not a string) and its \<open>valueint\<close> (an \<open>int\<close>: 32 bits, which \<open>sint\<close>
  reads as two's complement; the provider copies it and compares it with 0).
\<close>

datatype cJSON =
  Item (child: "(string \<times> cJSON) list") (valuestring: c_str) (valueint: "32 word")

text \<open>
  Modelled from the spec: the JSON Accessor's lookup, ``given a JSON document and a field
  name, returns the child value or an absent marker; never throws for a missing key''.
  The absent marker is the null pointer, \<open>None\<close>.
\<close>

definition cJSON_GetObjectItem :: "cJSON \<Rightarrow> string \<Rightarrow> cJSON option" where
  "cJSON_GetObjectItem object name = map_of (child object) name"

text \<open>
  The two ways the provider can leave defined behaviour: reading a member through the null
  pointer a lookup returned, and \<open>operator[]\<close> of a vector at an index that is not
  below its size.
\<close>

datatype fault = NullDereference | OutOfBounds

text \<open>
  A call \<open>syslog(priority, format, argument)\<close>. Every call of the provider has one
  \<open>%s\<close> argument; the call is recorded unformatted.
\<close>

datatype priority = LOG_WARNING

datatype syslog_call = Syslog priority string c_str

text \<open>
  The inventory record. Each property of the generated class has an \<open>exists\<close> flag and
  a value: \<open>None\<close> is a property that was never set, \<open>Some v\<close> one set by
  \<open>X_value(v)\<close>. String properties are set from a \<open>const char*\<close>, kept as it was
  passed. Only the properties the provider writes are listed.
\<close>

record Container_ContainerInventory_Class =
  InstanceID :: "c_str option"
  ImageId :: "c_str option"
  CreatedTime :: "c_str option"
  ContainerHostname :: "c_str option"
  EnvironmentVar :: "c_str option"
  Command :: "c_str option"
  ComposeGroup :: "c_str option"
  ExitCode :: "32 word option"
  State :: "c_str option"
  Links :: "c_str option"
  Ports :: "c_str option"

text \<open>The default-constructed record: no property set.\<close>

definition new_instance :: Container_ContainerInventory_Class where
  "new_instance =
     \<lparr>InstanceID = None, ImageId = None, CreatedTime = None, ContainerHostname = None,
      EnvironmentVar = None, Command = None, ComposeGroup = None, ExitCode = None,
      State = None, Links = None, Ports = None\<rparr>"

text \<open>
  The collaborators the provider calls and whose code is elsewhere, taken as parameters:
  \<open>cJSON_Print\<close> (the stringifier, called on whatever the lookup returned, null
  included), \<open>getResponse\<close> (the transport: one parsed document or null per request),
  \<open>listContainer\<close> (the identifiers) and \<open>gethostname\<close> (its return code and the
  name it wrote to the buffer).
\<close>

record platform =
  cJSON_Print :: "cJSON option \<Rightarrow> c_str"
  getResponse :: "string list \<Rightarrow> cJSON option list"
  listContainer :: "bool \<Rightarrow> string list"
  gethostname :: "int \<times> string"

section \<open>The container query\<close>

definition restDockerInspect :: "string \<Rightarrow> string" where
  "restDockerInspect ident =
     ''GET /containers/'' @ ident @ ''/json HTTP/1.1'' @ [CHR 0x0D, CHR 0x0A, CHR 0x0D, CHR 0x0A]"

text \<open>
  The extractors take the record and the log by reference; here they return both, or the
  fault that ends the process.
\<close>

type_synonym outcome = "fault + (Container_ContainerInventory_Class \<times> syslog_call list)"

definition ObtainContainerConfig ::
  "platform \<Rightarrow> Container_ContainerInventory_Class \<Rightarrow> cJSON \<Rightarrow> syslog_call list \<Rightarrow> outcome" where
  "ObtainContainerConfig P inst entry lg =
     (case cJSON_GetObjectItem entry ''Config'' of
        Some config \<Rightarrow>
          (case cJSON_GetObjectItem config ''Hostname'' of
             None \<Rightarrow> Inl NullDereference
           | Some hostname \<Rightarrow>
               (let inst = inst\<lparr>ContainerHostname := Some (valuestring hostname)\<rparr>;
                    inst = inst\<lparr>EnvironmentVar :=
                             Some (cJSON_Print P (cJSON_GetObjectItem config ''Env''))\<rparr>;
                    inst = inst\<lparr>Command :=
                             Some (cJSON_Print P (cJSON_GetObjectItem config ''Cmd''))\<rparr>
                in (case cJSON_GetObjectItem config ''Labels'' of
                      Some labels \<Rightarrow>
                        (case cJSON_GetObjectItem labels ''com.docker.compose.project'' of
                           Some groupName \<Rightarrow>
                             Inr (inst\<lparr>ComposeGroup := Some (valuestring groupName)\<rparr>, lg)
                         | None \<Rightarrow> Inr (inst, lg))
                    | None \<Rightarrow> Inr (inst, lg))))
      | None \<Rightarrow>
          (case cJSON_GetObjectItem entry ''Id'' of
             None \<Rightarrow> Inl NullDereference
           | Some ident \<Rightarrow>
               Inr (inst, lg @ [Syslog LOG_WARNING
                 ''Attempt in ObtainContainerConfig to get container %s config information returned null''
                 (valuestring ident)])))"

text \<open>
  \<open>ObtainContainerState\<close> ends with two expression statements,
  \<open>cJSON_GetObjectItem(state, "StartedAt")->valuestring;\<close> and the same for
  \<open>"FinishedAt"\<close>. They look the member up and discard the access: nothing is read
  through the pointer and nothing is stored, so a missing timestamp changes nothing and the
  record is returned.
\<close>

definition ObtainContainerState ::
  "Container_ContainerInventory_Class \<Rightarrow> cJSON \<Rightarrow> syslog_call list \<Rightarrow> outcome" where
  "ObtainContainerState inst entry lg =
     (case cJSON_GetObjectItem entry ''State'' of
        Some state \<Rightarrow>
          (case cJSON_GetObjectItem state ''ExitCode'' of
             None \<Rightarrow> Inl NullDereference
           | Some exitCodeItem \<Rightarrow>
               (let exitCode = valueint exitCodeItem;
                    inst = inst\<lparr>ExitCode := Some exitCode\<rparr>
                in (case
                      (if exitCode \<noteq> 0 then Inr (inst\<lparr>State := Some (Some ''Failed'')\<rparr>)
                       else
                         (case cJSON_GetObjectItem state ''Running'' of
                            None \<Rightarrow> Inl NullDereference
                          | Some running \<Rightarrow>
                              if valueint running \<noteq> 0
                              then Inr (inst\<lparr>State := Some (Some ''Running'')\<rparr>)
                              else
                                (case cJSON_GetObjectItem state ''Paused'' of
                                   None \<Rightarrow> Inl NullDereference
                                 | Some paused \<Rightarrow>
                                     if valueint paused \<noteq> 0
                                     then Inr (inst\<lparr>State := Some (Some ''Paused'')\<rparr>)
                                     else Inr (inst\<lparr>State := Some (Some ''Stopped'')\<rparr>))))
                    of
                      Inl e \<Rightarrow> Inl e
                    | Inr inst \<Rightarrow>
                        (let startedAt = cJSON_GetObjectItem state ''StartedAt'';
                             finishedAt = cJSON_GetObjectItem state ''FinishedAt''
                         in Inr (inst, lg)))))
      | None \<Rightarrow>
          (case cJSON_GetObjectItem entry ''Id'' of
             None \<Rightarrow> Inl NullDereference
           | Some ident \<Rightarrow>
               Inr (inst, lg @ [Syslog LOG_WARNING
                 ''Attempt in ObtainContainerState to get container %s state information returned null''
                 (valuestring ident)])))"

definition ObtainContainerHostConfig ::
  "platform \<Rightarrow> Container_ContainerInventory_Class \<Rightarrow> cJSON \<Rightarrow> syslog_call list \<Rightarrow> outcome" where
  "ObtainContainerHostConfig P inst entry lg =
     (case cJSON_GetObjectItem entry ''HostConfig'' of
        Some hostConfig \<Rightarrow>
          (let inst = inst\<lparr>Links :=
                        Some (cJSON_Print P (cJSON_GetObjectItem hostConfig ''Links''))\<rparr>;
               inst = inst\<lparr>Ports :=
                        Some (cJSON_Print P (cJSON_GetObjectItem hostConfig ''PortBindings''))\<rparr>
           in Inr (inst, lg))
      | None \<Rightarrow>
          (case cJSON_GetObjectItem entry ''Id'' of
             None \<Rightarrow> Inl NullDereference
           | Some ident \<Rightarrow>
               Inr (inst, lg @ [Syslog LOG_WARNING
                 ''Attempt in ObtainContainerHostConfig to get container %s host config information returned null''
                 (valuestring ident)])))"

text \<open>
  \<open>InspectContainer\<close>: one request, and the first element of the response when the
  response is not empty and that element is not null. \<open>cJSON_Delete\<close> frees the
  document after the extraction and changes nothing the record holds.
\<close>

definition InspectContainer :: "platform \<Rightarrow> string \<Rightarrow> syslog_call list \<Rightarrow> outcome" where
  "InspectContainer P ident lg =
     (let inst = new_instance;
          request = [restDockerInspect ident];
          response = getResponse P request
      in (case response of
            Some response0 # rest \<Rightarrow>
              (case cJSON_GetObjectItem response0 ''Id'' of
                 None \<Rightarrow> Inl NullDereference
               | Some idItem \<Rightarrow>
              (case cJSON_GetObjectItem response0 ''Image'' of
                 None \<Rightarrow> Inl NullDereference
               | Some imageItem \<Rightarrow>
              (case cJSON_GetObjectItem response0 ''Created'' of
                 None \<Rightarrow> Inl NullDereference
               | Some createdItem \<Rightarrow>
                   (let inst = inst\<lparr>InstanceID := Some (valuestring idItem)\<rparr>;
                        inst = inst\<lparr>ImageId := Some (valuestring imageItem)\<rparr>;
                        inst = inst\<lparr>CreatedTime := Some (valuestring createdItem)\<rparr>
                    in (case ObtainContainerConfig P inst response0 lg of
                          Inl e \<Rightarrow> Inl e
                        | Inr (inst, lg) \<Rightarrow>
                       (case ObtainContainerState inst response0 lg of
                          Inl e \<Rightarrow> Inl e
                        | Inr (inst, lg) \<Rightarrow>
                            ObtainContainerHostConfig P inst response0 lg))))))
          | _ \<Rightarrow>
              Inr (inst, lg @ [Syslog LOG_WARNING
                ''Attempt in InspectContainer to inspect %s returned null'' (Some ident)])))"

text \<open>
  The loop of \<open>QueryAll\<close>, from index \<open>i\<close> on. Each iteration appends the inspected
  record and then writes the host name into the element at index
  \<open>containerIds.size() - 1\<close>; \<open>operator[]\<close> does not check the index, so the write is
  the fault \<open>OutOfBounds\<close> unless the index is below the vector's size. Inside the
  loop the size of \<open>containerIds\<close> is at least one, so the subtraction does not wrap.
  The counter is an \<open>unsigned\<close> compared with a \<open>size_t\<close>; a natural number stands
  for both, the counter staying far below the range of \<open>unsigned\<close> (with two identifiers
  or more the loop ends in its first iteration, see \<open>QueryAll_no_return\<close> below).
\<close>

function QueryAll_loop ::
  "platform \<Rightarrow> string \<Rightarrow> string list \<Rightarrow> nat \<Rightarrow>
   Container_ContainerInventory_Class list \<times> syslog_call list \<Rightarrow>
   fault + (Container_ContainerInventory_Class list \<times> syslog_call list)" where
  "QueryAll_loop P hostname containerIds i (result, lg) =
     (if i < length containerIds then
        (case InspectContainer P (containerIds ! i) lg of
           Inl e \<Rightarrow> Inl e
         | Inr (inst, lg') \<Rightarrow>
             (let result' = result @ [inst]
              in if length containerIds - 1 < length result'
                 then QueryAll_loop P hostname containerIds (i + 1)
                        (result'[length containerIds - 1 :=
                           (result' ! (length containerIds - 1))\<lparr>ImageId := Some (Some hostname)\<rparr>],
                         lg')
                 else Inl OutOfBounds))
      else Inr (result, lg))"
  by pat_completeness auto
termination
  by (relation "measure (\<lambda>(P, hostname, containerIds, i, s). length containerIds - i)") auto

declare QueryAll_loop.simps [simp del]

text \<open>
  \<open>QueryAll\<close>: the host name is empty when \<open>gethostname\<close> does not return 0. The log
  holds the \<open>syslog\<close> calls of this collection; \<open>openlog\<close> and \<open>closelog\<close>
  bracket it and write no message.
\<close>

definition QueryAll ::
  "platform \<Rightarrow> fault + (Container_ContainerInventory_Class list \<times> syslog_call list)" where
  "QueryAll P =
     (let hostname = (if fst (gethostname P) \<noteq> 0 then '''' else snd (gethostname P));
          result = [];
          containerIds = listContainer P True
      in QueryAll_loop P hostname containerIds 0 (result, []))"

section \<open>Example documents\<close>

text \<open>
  Nodes as a parser builds them: a string node carries its text, a number or boolean
  node its integer value, an object node its children.
\<close>

abbreviation JString :: "string \<Rightarrow> cJSON" where
  "JString s \<equiv> Item [] (Some s) 0"

abbreviation JNumber :: "32 word \<Rightarrow> cJSON" where
  "JNumber n \<equiv> Item [] None n"

abbreviation JObject :: "(string \<times> cJSON) list \<Rightarrow> cJSON" where
  "JObject members \<equiv> Item members None 0"

definition example_config :: cJSON where
  "example_config =
     JObject [(''Hostname'', JString ''h1''), (''Env'', JObject []), (''Cmd'', JObject []),
              (''Labels'', JObject [(''com.docker.compose.project'', JString ''grp'')])]"

definition example_state :: "32 word \<Rightarrow> 32 word \<Rightarrow> 32 word \<Rightarrow> cJSON" where
  "example_state exitCode running paused =
     JObject [(''ExitCode'', JNumber exitCode), (''Running'', JNumber running),
              (''Paused'', JNumber paused), (''StartedAt'', JString ''2024-01-01T00:00:01Z''),
              (''FinishedAt'', JString ''0001-01-01T00:00:00Z'')]"

definition example_hostConfig :: cJSON where
  "example_hostConfig = JObject [(''Links'', JObject []), (''PortBindings'', JObject [])]"

text \<open>A document with the three top-level fields and the given sub-objects.\<close>

definition example_document :: "string \<Rightarrow> (string \<times> cJSON) list \<Rightarrow> cJSON" where
  "example_document ident subobjects =
     JObject ([(''Id'', JString ident), (''Image'', JString ''img1''),
               (''Created'', JString ''2024-01-01T00:00:00Z'')] @ subobjects)"

definition example_full :: "string \<Rightarrow> cJSON" where
  "example_full ident =
     example_document ident
       [(''Config'', example_config), (''State'', example_state 0 1 0),
        (''HostConfig'', example_hostConfig)]"

text \<open>
  A document of a container that exited with code 1, whose State carries the exit code
  and the two timestamps but neither Running nor Paused.
\<close>

definition example_exited_state :: cJSON where
  "example_exited_state =
     JObject [(''ExitCode'', JNumber 1), (''StartedAt'', JString ''2024-01-01T00:00:01Z''),
              (''FinishedAt'', JString ''2024-01-01T00:00:02Z'')]"

definition example_exited :: "string \<Rightarrow> cJSON" where
  "example_exited ident =
     example_document ident
       [(''Config'', example_config), (''State'', example_exited_state),
        (''HostConfig'', example_hostConfig)]"

text \<open>
  A State that carries nothing but a non-zero exit code: no flags and no timestamps.
\<close>

definition example_killed_state :: cJSON where
  "example_killed_state = JObject [(''ExitCode'', JNumber 137)]"

text \<open>
  A State with the exit code and the two flags and without timestamps.
\<close>

definition example_flags_state :: "32 word \<Rightarrow> 32 word \<Rightarrow> 32 word \<Rightarrow> cJSON" where
  "example_flags_state exitCode running paused =
     JObject [(''ExitCode'', JNumber exitCode), (''Running'', JNumber running),
              (''Paused'', JNumber paused)]"

text \<open>A document without the Config sub-object.\<close>

definition example_no_config :: "string \<Rightarrow> cJSON" where
  "example_no_config ident =
     example_document ident
       [(''State'', example_state 0 1 0), (''HostConfig'', example_hostConfig)]"

text \<open>The record that inspecting \<open>example_full ident\<close> on the example host gives.\<close>

definition example_record :: "string \<Rightarrow> Container_ContainerInventory_Class" where
  "example_record ident =
     \<lparr>InstanceID = Some (Some ident), ImageId = Some (Some ''img1''),
      CreatedTime = Some (Some ''2024-01-01T00:00:00Z''), ContainerHostname = Some (Some ''h1''),
      EnvironmentVar = Some (Some ''{}''), Command = Some (Some ''{}''),
      ComposeGroup = Some (Some ''grp''), ExitCode = Some 0, State = Some (Some ''Running''),
      Links = Some (Some ''{}''), Ports = Some (Some ''{}'')\<rparr>"

text \<open>
  A host named \<open>host1\<close> whose runtime lists \<open>containerIds\<close> and answers each request
  of \<open>documents\<close> with the document beside it, and any other request with null.
\<close>

definition example_platform :: "string list \<Rightarrow> (string \<times> cJSON) list \<Rightarrow> platform" where
  "example_platform containerIds documents =
     \<lparr>cJSON_Print = (\<lambda>item. case item of None \<Rightarrow> None | Some node \<Rightarrow> Some ''{}''),
      getResponse = map (map_of (map (\<lambda>(ident, document). (restDockerInspect ident, document)) documents)),
      listContainer = (\<lambda>all. containerIds),
      gethostname = (0, ''host1'')\<rparr>"

section \<open>What each function computes\<close>

text \<open>
  One equation per function and per side of its first test; the properties below are read
  off these.
\<close>

lemma ObtainContainerConfig_absent:
  assumes "cJSON_GetObjectItem entry ''Config'' = None"
  shows "ObtainContainerConfig P inst entry lg =
           (case cJSON_GetObjectItem entry ''Id'' of
              None \<Rightarrow> Inl NullDereference
            | Some ident \<Rightarrow>
                Inr (inst, lg @ [Syslog LOG_WARNING
                  ''Attempt in ObtainContainerConfig to get container %s config information returned null''
                  (valuestring ident)]))"
  using assms by (simp add: ObtainContainerConfig_def)

lemma ObtainContainerConfig_present:
  assumes "cJSON_GetObjectItem entry ''Config'' = Some config"
  shows "ObtainContainerConfig P inst entry lg =
           (case cJSON_GetObjectItem config ''Hostname'' of
              None \<Rightarrow> Inl NullDereference
            | Some hostname \<Rightarrow>
                Inr (inst\<lparr>ContainerHostname := Some (valuestring hostname),
                          EnvironmentVar := Some (cJSON_Print P (cJSON_GetObjectItem config ''Env'')),
                          Command := Some (cJSON_Print P (cJSON_GetObjectItem config ''Cmd'')),
                          ComposeGroup :=
                            (case cJSON_GetObjectItem config ''Labels'' of
                               None \<Rightarrow> ComposeGroup inst
                             | Some labels \<Rightarrow>
                                 (case cJSON_GetObjectItem labels ''com.docker.compose.project'' of
                                    None \<Rightarrow> ComposeGroup inst
                                  | Some groupName \<Rightarrow> Some (valuestring groupName)))\<rparr>, lg))"
  using assms by (simp add: ObtainContainerConfig_def Let_def split: option.splits)

lemma ObtainContainerState_absent:
  assumes "cJSON_GetObjectItem entry ''State'' = None"
  shows "ObtainContainerState inst entry lg =
           (case cJSON_GetObjectItem entry ''Id'' of
              None \<Rightarrow> Inl NullDereference
            | Some ident \<Rightarrow>
                Inr (inst, lg @ [Syslog LOG_WARNING
                  ''Attempt in ObtainContainerState to get container %s state information returned null''
                  (valuestring ident)]))"
  using assms by (simp add: ObtainContainerState_def)

lemma ObtainContainerState_present:
  assumes "cJSON_GetObjectItem entry ''State'' = Some state"
      and "cJSON_GetObjectItem state ''ExitCode'' = Some exitCodeItem"
  shows "ObtainContainerState inst entry lg =
           (if valueint exitCodeItem \<noteq> 0
            then Inr (inst\<lparr>ExitCode := Some (valueint exitCodeItem),
                           State := Some (Some ''Failed'')\<rparr>, lg)
            else
              (case cJSON_GetObjectItem state ''Running'' of
                 None \<Rightarrow> Inl NullDereference
               | Some running \<Rightarrow>
                   if valueint running \<noteq> 0
                   then Inr (inst\<lparr>ExitCode := Some (valueint exitCodeItem),
                                  State := Some (Some ''Running'')\<rparr>, lg)
                   else
                     (case cJSON_GetObjectItem state ''Paused'' of
                        None \<Rightarrow> Inl NullDereference
                      | Some paused \<Rightarrow>
                          if valueint paused \<noteq> 0
                          then Inr (inst\<lparr>ExitCode := Some (valueint exitCodeItem),
                                         State := Some (Some ''Paused'')\<rparr>, lg)
                          else Inr (inst\<lparr>ExitCode := Some (valueint exitCodeItem),
                                         State := Some (Some ''Stopped'')\<rparr>, lg))))"
  using assms by (simp add: ObtainContainerState_def Let_def split: option.splits)

lemma ObtainContainerState_missing_child:
  assumes "cJSON_GetObjectItem entry ''State'' = Some state"
      and "cJSON_GetObjectItem state ''ExitCode'' = None"
  shows "ObtainContainerState inst entry lg = Inl NullDereference"
  using assms by (simp add: ObtainContainerState_def)

lemma ObtainContainerHostConfig_absent:
  assumes "cJSON_GetObjectItem entry ''HostConfig'' = None"
  shows "ObtainContainerHostConfig P inst entry lg =
           (case cJSON_GetObjectItem entry ''Id'' of
              None \<Rightarrow> Inl NullDereference
            | Some ident \<Rightarrow>
                Inr (inst, lg @ [Syslog LOG_WARNING
                  ''Attempt in ObtainContainerHostConfig to get container %s host config information returned null''
                  (valuestring ident)]))"
  using assms by (simp add: ObtainContainerHostConfig_def)

lemma ObtainContainerHostConfig_present:
  assumes "cJSON_GetObjectItem entry ''HostConfig'' = Some hostConfig"
  shows "ObtainContainerHostConfig P inst entry lg =
           Inr (inst\<lparr>Links := Some (cJSON_Print P (cJSON_GetObjectItem hostConfig ''Links'')),
                     Ports := Some (cJSON_Print P (cJSON_GetObjectItem hostConfig ''PortBindings''))\<rparr>,
                lg)"
  using assms by (simp add: ObtainContainerHostConfig_def Let_def)

lemma InspectContainer_absent:
  assumes "getResponse P [restDockerInspect ident] = [] \<or>
           (\<exists>rest. getResponse P [restDockerInspect ident] = None # rest)"
  shows "InspectContainer P ident lg =
           Inr (new_instance, lg @ [Syslog LOG_WARNING
                  ''Attempt in InspectContainer to inspect %s returned null'' (Some ident)])"
  using assms by (auto simp: InspectContainer_def Let_def)

lemma InspectContainer_present:
  assumes "getResponse P [restDockerInspect ident] = Some response0 # rest"
  shows "InspectContainer P ident lg =
           (case cJSON_GetObjectItem response0 ''Id'' of
              None \<Rightarrow> Inl NullDereference
            | Some idItem \<Rightarrow>
           (case cJSON_GetObjectItem response0 ''Image'' of
              None \<Rightarrow> Inl NullDereference
            | Some imageItem \<Rightarrow>
           (case cJSON_GetObjectItem response0 ''Created'' of
              None \<Rightarrow> Inl NullDereference
            | Some createdItem \<Rightarrow>
           (case ObtainContainerConfig P
                   (new_instance\<lparr>InstanceID := Some (valuestring idItem),
                                  ImageId := Some (valuestring imageItem),
                                  CreatedTime := Some (valuestring createdItem)\<rparr>) response0 lg of
              Inl e \<Rightarrow> Inl e
            | Inr (inst, lg1) \<Rightarrow>
           (case ObtainContainerState inst response0 lg1 of
              Inl e \<Rightarrow> Inl e
            | Inr (inst, lg2) \<Rightarrow> ObtainContainerHostConfig P inst response0 lg2)))))"
  using assms by (simp add: InspectContainer_def Let_def split: option.splits)

lemma QueryAll_loop_step:
  assumes "i < length containerIds"
      and "InspectContainer P (containerIds ! i) lg = Inr (inst, lg')"
  shows "QueryAll_loop P hostname containerIds i (result, lg) =
           (if length containerIds - 1 < length (result @ [inst])
            then QueryAll_loop P hostname containerIds (i + 1)
                   ((result @ [inst])[length containerIds - 1 :=
                      ((result @ [inst]) ! (length containerIds - 1))\<lparr>ImageId := Some (Some hostname)\<rparr>],
                    lg')
            else Inl OutOfBounds)"
  using assms by (subst QueryAll_loop.simps) (simp add: Let_def)

lemma QueryAll_loop_done:
  assumes "\<not> i < length containerIds"
  shows "QueryAll_loop P hostname containerIds i (result, lg) = Inr (result, lg)"
  using assms by (subst QueryAll_loop.simps) simp

lemma QueryAll_loop_fault:
  assumes "i < length containerIds"
      and "InspectContainer P (containerIds ! i) lg = Inl e"
  shows "QueryAll_loop P hostname containerIds i (result, lg) = Inl e"
  using assms by (subst QueryAll_loop.simps) simp

lemma ObtainContainerState_keeps_config:
  assumes "ObtainContainerState inst entry lg = Inr (r, lg')"
  shows "ContainerHostname r = ContainerHostname inst \<and> EnvironmentVar r = EnvironmentVar inst \<and>
         Command r = Command inst \<and> ComposeGroup r = ComposeGroup inst \<and> set lg \<subseteq> set lg'"
  using assms
  by (auto simp: ObtainContainerState_def Let_def split: option.splits if_splits sum.splits)

lemma ObtainContainerHostConfig_keeps_config:
  assumes "ObtainContainerHostConfig P inst entry lg = Inr (r, lg')"
  shows "ContainerHostname r = ContainerHostname inst \<and> EnvironmentVar r = EnvironmentVar inst \<and>
         Command r = Command inst \<and> ComposeGroup r = ComposeGroup inst \<and> set lg \<subseteq> set lg'"
  using assms
  by (auto simp: ObtainContainerHostConfig_def Let_def split: option.splits)

text \<open>
  What \<open>InspectContainer\<close> returns went through the three extractors in turn.
\<close>

lemma InspectContainer_returns:
  assumes "getResponse P [restDockerInspect ident] = Some response0 # rest"
      and "InspectContainer P ident lg = Inr (r, lg')"
  shows "\<exists>idItem imageItem createdItem inst1 lg1 inst2 lg2.
           cJSON_GetObjectItem response0 ''Id'' = Some idItem \<and>
           cJSON_GetObjectItem response0 ''Image'' = Some imageItem \<and>
           cJSON_GetObjectItem response0 ''Created'' = Some createdItem \<and>
           ObtainContainerConfig P
             (new_instance\<lparr>InstanceID := Some (valuestring idItem),
                            ImageId := Some (valuestring imageItem),
                            CreatedTime := Some (valuestring createdItem)\<rparr>) response0 lg =
             Inr (inst1, lg1) \<and>
           ObtainContainerState inst1 response0 lg1 = Inr (inst2, lg2) \<and>
           ObtainContainerHostConfig P inst2 response0 lg2 = Inr (r, lg')"
  using assms(2) unfolding InspectContainer_present [OF assms(1)]
  by (auto split: option.splits sum.splits)

subsection \<open>The example documents, member by member\<close>

lemma example_state_children:
  "cJSON_GetObjectItem (example_state exitCode running paused) ''ExitCode'' = Some (JNumber exitCode)"
  "cJSON_GetObjectItem (example_state exitCode running paused) ''Running'' = Some (JNumber running)"
  "cJSON_GetObjectItem (example_state exitCode running paused) ''Paused'' = Some (JNumber paused)"
  "cJSON_GetObjectItem (example_state exitCode running paused) ''StartedAt'' =
     Some (JString ''2024-01-01T00:00:01Z'')"
  "cJSON_GetObjectItem (example_state exitCode running paused) ''FinishedAt'' =
     Some (JString ''0001-01-01T00:00:00Z'')"
  by (simp_all add: example_state_def cJSON_GetObjectItem_def)

lemma example_document_top:
  "cJSON_GetObjectItem (example_document ident subobjects) ''Id'' = Some (JString ident)"
  "cJSON_GetObjectItem (example_document ident subobjects) ''Image'' = Some (JString ''img1'')"
  "cJSON_GetObjectItem (example_document ident subobjects) ''Created'' =
     Some (JString ''2024-01-01T00:00:00Z'')"
  by (simp_all add: example_document_def cJSON_GetObjectItem_def)

lemma example_document_sub:
  "name \<notin> {''Id'', ''Image'', ''Created''} \<Longrightarrow>
   cJSON_GetObjectItem (example_document ident subobjects) name = map_of subobjects name"
  by (simp add: example_document_def cJSON_GetObjectItem_def)

lemma restDockerInspect_inj: "restDockerInspect a = restDockerInspect b \<longleftrightarrow> a = b"
  by (simp add: restDockerInspect_def)

lemma example_platform_response:
  "getResponse (example_platform containerIds documents) [restDockerInspect ident] =
     [map_of documents ident]"
  by (induction documents) (auto simp: example_platform_def restDockerInspect_inj)

lemma example_platform_members:
  "listContainer (example_platform containerIds documents) all = containerIds"
  "gethostname (example_platform containerIds documents) = (0, ''host1'')"
  "cJSON_Print (example_platform containerIds documents) None = None"
  "cJSON_Print (example_platform containerIds documents) (Some node) = Some ''{}''"
  by (simp_all add: example_platform_def)

lemma example_config_children:
  "cJSON_GetObjectItem example_config ''Hostname'' = Some (JString ''h1'')"
  "cJSON_GetObjectItem example_config ''Env'' = Some (JObject [])"
  "cJSON_GetObjectItem example_config ''Cmd'' = Some (JObject [])"
  "cJSON_GetObjectItem example_config ''Labels'' =
     Some (JObject [(''com.docker.compose.project'', JString ''grp'')])"
  "cJSON_GetObjectItem (JObject [(''com.docker.compose.project'', JString ''grp'')])
     ''com.docker.compose.project'' = Some (JString ''grp'')"
  by (simp_all add: example_config_def cJSON_GetObjectItem_def)

lemma example_hostConfig_children:
  "cJSON_GetObjectItem example_hostConfig ''Links'' = Some (JObject [])"
  "cJSON_GetObjectItem example_hostConfig ''PortBindings'' = Some (JObject [])"
  by (simp_all add: example_hostConfig_def cJSON_GetObjectItem_def)

lemma example_full_inspected:
  assumes "map_of documents ident = Some (example_full ident)"
  shows "InspectContainer (example_platform containerIds documents) ident lg =
           Inr (example_record ident, lg)"
proof -
  let ?P = "example_platform containerIds documents"
  have r: "getResponse ?P [restDockerInspect ident] = Some (example_full ident) # []"
    by (simp add: example_platform_response assms)
  have sub: "cJSON_GetObjectItem (example_full ident) ''Config'' = Some example_config"
    "cJSON_GetObjectItem (example_full ident) ''State'' = Some (example_state 0 1 0)"
    "cJSON_GetObjectItem (example_full ident) ''HostConfig'' = Some example_hostConfig"
    by (simp_all add: example_full_def example_document_sub)
  have top: "cJSON_GetObjectItem (example_full ident) ''Id'' = Some (JString ident)"
    "cJSON_GetObjectItem (example_full ident) ''Image'' = Some (JString ''img1'')"
    "cJSON_GetObjectItem (example_full ident) ''Created'' = Some (JString ''2024-01-01T00:00:00Z'')"
    by (simp_all add: example_full_def example_document_top)
  show ?thesis
    unfolding InspectContainer_present [OF r]
    by (simp add: top ObtainContainerConfig_present [OF sub(1)]
          ObtainContainerState_present [OF sub(2) example_state_children(1)]
          ObtainContainerHostConfig_present [OF sub(3)]
          example_state_children example_config_children example_hostConfig_children
          example_platform_members example_record_def new_instance_def)
qed

lemma example_exited_state_children:
  "cJSON_GetObjectItem example_exited_state ''ExitCode'' = Some (JNumber 1)"
  "cJSON_GetObjectItem example_exited_state ''Running'' = None"
  "cJSON_GetObjectItem example_exited_state ''Paused'' = None"
  "cJSON_GetObjectItem example_exited_state ''StartedAt'' = Some (JString ''2024-01-01T00:00:01Z'')"
  "cJSON_GetObjectItem example_exited_state ''FinishedAt'' = Some (JString ''2024-01-01T00:00:02Z'')"
  by (simp_all add: example_exited_state_def cJSON_GetObjectItem_def)

lemma example_exited_inspected:
  assumes "map_of documents ident = Some (example_exited ident)"
  shows "InspectContainer (example_platform containerIds documents) ident lg =
           Inr ((example_record ident)\<lparr>ExitCode := Some 1, State := Some (Some ''Failed'')\<rparr>, lg)"
proof -
  let ?P = "example_platform containerIds documents"
  have r: "getResponse ?P [restDockerInspect ident] = Some (example_exited ident) # []"
    by (simp add: example_platform_response assms)
  have sub: "cJSON_GetObjectItem (example_exited ident) ''Config'' = Some example_config"
    "cJSON_GetObjectItem (example_exited ident) ''State'' = Some example_exited_state"
    "cJSON_GetObjectItem (example_exited ident) ''HostConfig'' = Some example_hostConfig"
    by (simp_all add: example_exited_def example_document_sub)
  have top: "cJSON_GetObjectItem (example_exited ident) ''Id'' = Some (JString ident)"
    "cJSON_GetObjectItem (example_exited ident) ''Image'' = Some (JString ''img1'')"
    "cJSON_GetObjectItem (example_exited ident) ''Created'' = Some (JString ''2024-01-01T00:00:00Z'')"
    by (simp_all add: example_exited_def example_document_top)
  show ?thesis
    unfolding InspectContainer_present [OF r]
    by (simp add: top ObtainContainerConfig_present [OF sub(1)]
          ObtainContainerState_present [OF sub(2) example_exited_state_children(1)]
          ObtainContainerHostConfig_present [OF sub(3)]
          example_config_children example_hostConfig_children
          example_platform_members example_record_def new_instance_def)
qed

lemma example_no_config_inspected:
  assumes "map_of documents ident = Some (example_no_config ident)"
  shows "InspectContainer (example_platform containerIds documents) ident lg =
           Inr (new_instance\<lparr>InstanceID := Some (Some ident), ImageId := Some (Some ''img1''),
                  CreatedTime := Some (Some ''2024-01-01T00:00:00Z''), ExitCode := Some 0,
                  State := Some (Some ''Running''), Links := Some (Some ''{}''),
                  Ports := Some (Some ''{}'')\<rparr>,
                lg @ [Syslog LOG_WARNING
                  ''Attempt in ObtainContainerConfig to get container %s config information returned null''
                  (Some ident)])"
proof -
  let ?P = "example_platform containerIds documents"
  have r: "getResponse ?P [restDockerInspect ident] = Some (example_no_config ident) # []"
    by (simp add: example_platform_response assms)
  have sub: "cJSON_GetObjectItem (example_no_config ident) ''Config'' = None"
    "cJSON_GetObjectItem (example_no_config ident) ''State'' = Some (example_state 0 1 0)"
    "cJSON_GetObjectItem (example_no_config ident) ''HostConfig'' = Some example_hostConfig"
    by (simp_all add: example_no_config_def example_document_sub)
  have top: "cJSON_GetObjectItem (example_no_config ident) ''Id'' = Some (JString ident)"
    "cJSON_GetObjectItem (example_no_config ident) ''Image'' = Some (JString ''img1'')"
    "cJSON_GetObjectItem (example_no_config ident) ''Created'' = Some (JString ''2024-01-01T00:00:00Z'')"
    by (simp_all add: example_no_config_def example_document_top)
  show ?thesis
    unfolding InspectContainer_present [OF r]
    by (simp add: top ObtainContainerConfig_absent [OF sub(1)]
          ObtainContainerState_present [OF sub(2) example_state_children(1)]
          ObtainContainerHostConfig_present [OF sub(3)]
          example_state_children example_hostConfig_children
          example_platform_members new_instance_def)
qed

lemma example_absent_inspected:
  assumes "map_of documents ident = None"
  shows "InspectContainer (example_platform containerIds documents) ident lg =
           Inr (new_instance, lg @ [Syslog LOG_WARNING
                  ''Attempt in InspectContainer to inspect %s returned null'' (Some ident)])"
  by (rule InspectContainer_absent) (simp add: example_platform_response assms)

lemma example_killed_state_children:
  "cJSON_GetObjectItem example_killed_state ''ExitCode'' = Some (JNumber 137)"
  "cJSON_GetObjectItem example_killed_state ''Running'' = None"
  "cJSON_GetObjectItem example_killed_state ''Paused'' = None"
  "cJSON_GetObjectItem example_killed_state ''StartedAt'' = None"
  "cJSON_GetObjectItem example_killed_state ''FinishedAt'' = None"
  by (simp_all add: example_killed_state_def cJSON_GetObjectItem_def)

lemma example_flags_state_children:
  "cJSON_GetObjectItem (example_flags_state exitCode running paused) ''ExitCode'' =
     Some (JNumber exitCode)"
  "cJSON_GetObjectItem (example_flags_state exitCode running paused) ''Running'' =
     Some (JNumber running)"
  "cJSON_GetObjectItem (example_flags_state exitCode running paused) ''Paused'' =
     Some (JNumber paused)"
  "cJSON_GetObjectItem (example_flags_state exitCode running paused) ''StartedAt'' = None"
  "cJSON_GetObjectItem (example_flags_state exitCode running paused) ''FinishedAt'' = None"
  by (simp_all add: example_flags_state_def cJSON_GetObjectItem_def)

section \<open>State derivation\<close>

text \<open>
  C1. When the State sub-object is present and the exit code read from it is not zero,
  the record's State is set to "Failed" whatever the Running and Paused members are (they
  are not read, and may be missing), and the record is returned; the exit code is stored
  in the record for every value, zero or not.
\<close>

theorem ObtainContainerState_Failed:
  assumes "cJSON_GetObjectItem entry ''State'' = Some state"
      and "cJSON_GetObjectItem state ''ExitCode'' = Some exitCodeItem"
  shows "(valueint exitCodeItem \<noteq> 0 \<longrightarrow>
            ObtainContainerState inst entry lg =
              Inr (inst\<lparr>ExitCode := Some (valueint exitCodeItem),
                        State := Some (Some ''Failed'')\<rparr>, lg)) \<and>
         (\<forall>r lg'. ObtainContainerState inst entry lg = Inr (r, lg') \<longrightarrow>
            ExitCode r = Some (valueint exitCodeItem))"
  using assms
  by (auto simp: ObtainContainerState_def Let_def split: option.splits if_splits)

theorem ObtainContainerState_Failed_witness:
  "cJSON_GetObjectItem (example_document ''abc123'' [(''State'', example_state 137 1 0)]) ''State'' =
     Some (example_state 137 1 0) \<and>
   cJSON_GetObjectItem (example_state 137 1 0) ''ExitCode'' = Some (JNumber 137) \<and>
   valueint (JNumber 137) \<noteq> 0 \<and>
   ObtainContainerState new_instance
       (example_document ''abc123'' [(''State'', example_state 137 1 0)]) [] =
     Inr (new_instance\<lparr>ExitCode := Some 137, State := Some (Some ''Failed'')\<rparr>, []) \<and>
   cJSON_GetObjectItem (example_document ''abc123'' [(''State'', example_killed_state)]) ''State'' =
     Some example_killed_state \<and>
   cJSON_GetObjectItem example_killed_state ''ExitCode'' = Some (JNumber 137) \<and>
   cJSON_GetObjectItem example_killed_state ''Running'' = None \<and>
   cJSON_GetObjectItem example_killed_state ''Paused'' = None \<and>
   cJSON_GetObjectItem example_killed_state ''StartedAt'' = None \<and>
   cJSON_GetObjectItem example_killed_state ''FinishedAt'' = None \<and>
   ObtainContainerState new_instance
       (example_document ''abc123'' [(''State'', example_killed_state)]) [] =
     Inr (new_instance\<lparr>ExitCode := Some 137, State := Some (Some ''Failed'')\<rparr>, [])"
proof -
  let ?doc = "example_document ''abc123'' [(''State'', example_state 137 1 0)]"
  let ?killed = "example_document ''abc123'' [(''State'', example_killed_state)]"
  have st: "cJSON_GetObjectItem ?doc ''State'' = Some (example_state 137 1 0)"
    by (simp add: example_document_sub)
  have ec: "cJSON_GetObjectItem (example_state 137 1 0) ''ExitCode'' = Some (JNumber 137)"
    by (simp add: example_state_children)
  have nz: "valueint (JNumber 137) \<noteq> 0"
    by simp
  have res: "ObtainContainerState new_instance ?doc [] =
               Inr (new_instance\<lparr>ExitCode := Some 137, State := Some (Some ''Failed'')\<rparr>, [])"
    using ObtainContainerState_Failed [OF st ec, of new_instance "[]"] nz
    by simp
  have st': "cJSON_GetObjectItem ?killed ''State'' = Some example_killed_state"
    by (simp add: example_document_sub)
  have res': "ObtainContainerState new_instance ?killed [] =
               Inr (new_instance\<lparr>ExitCode := Some 137, State := Some (Some ''Failed'')\<rparr>, [])"
    using ObtainContainerState_Failed
      [OF st' example_killed_state_children(1), of new_instance "[]"] nz
    by simp
  from st ec nz res st' example_killed_state_children res' show ?thesis
    by blast
qed



section \<open>The warning paths\<close>

text \<open>
  C10. In each of the three sub-extractors the branch taken when the sub-object is absent
  looks "Id" up in the document and dereferences the result unchecked. So on a document
  that lacks the sub-object and "Id" the warning branch itself is a null dereference; when
  "Id" is there the branch logs one warning and leaves the record as it was.
\<close>

theorem warning_path_needs_Id:
  "(cJSON_GetObjectItem entry ''Config'' = None \<and> cJSON_GetObjectItem entry ''Id'' = None \<longrightarrow>
      ObtainContainerConfig P inst entry lg = Inl NullDereference) \<and>
   (cJSON_GetObjectItem entry ''State'' = None \<and> cJSON_GetObjectItem entry ''Id'' = None \<longrightarrow>
      ObtainContainerState inst entry lg = Inl NullDereference) \<and>
   (cJSON_GetObjectItem entry ''HostConfig'' = None \<and> cJSON_GetObjectItem entry ''Id'' = None \<longrightarrow>
      ObtainContainerHostConfig P inst entry lg = Inl NullDereference) \<and>
   (\<forall>ident. cJSON_GetObjectItem entry ''Config'' = None \<and>
      cJSON_GetObjectItem entry ''Id'' = Some ident \<longrightarrow>
      ObtainContainerConfig P inst entry lg =
        Inr (inst, lg @ [Syslog LOG_WARNING
          ''Attempt in ObtainContainerConfig to get container %s config information returned null''
          (valuestring ident)])) \<and>
   (\<forall>ident. cJSON_GetObjectItem entry ''State'' = None \<and>
      cJSON_GetObjectItem entry ''Id'' = Some ident \<longrightarrow>
      ObtainContainerState inst entry lg =
        Inr (inst, lg @ [Syslog LOG_WARNING
          ''Attempt in ObtainContainerState to get container %s state information returned null''
          (valuestring ident)])) \<and>
   (\<forall>ident. cJSON_GetObjectItem entry ''HostConfig'' = None \<and>
      cJSON_GetObjectItem entry ''Id'' = Some ident \<longrightarrow>
      ObtainContainerHostConfig P inst entry lg =
        Inr (inst, lg @ [Syslog LOG_WARNING
          ''Attempt in ObtainContainerHostConfig to get container %s host config information returned null''
          (valuestring ident)]))"
  by (simp add: ObtainContainerConfig_absent ObtainContainerState_absent
        ObtainContainerHostConfig_absent)

theorem warning_path_needs_Id_witness:
  "cJSON_GetObjectItem (JObject []) ''Config'' = None \<and>
   cJSON_GetObjectItem (JObject []) ''State'' = None \<and>
   cJSON_GetObjectItem (JObject []) ''HostConfig'' = None \<and>
   cJSON_GetObjectItem (JObject []) ''Id'' = None \<and>
   ObtainContainerConfig (example_platform [] []) new_instance (JObject []) [] = Inl NullDereference \<and>
   ObtainContainerState new_instance (JObject []) [] = Inl NullDereference \<and>
   ObtainContainerHostConfig (example_platform [] []) new_instance (JObject []) [] =
     Inl NullDereference \<and>
   cJSON_GetObjectItem (example_document ''abc123'' []) ''Config'' = None \<and>
   cJSON_GetObjectItem (example_document ''abc123'' []) ''State'' = None \<and>
   cJSON_GetObjectItem (example_document ''abc123'' []) ''HostConfig'' = None \<and>
   cJSON_GetObjectItem (example_document ''abc123'' []) ''Id'' = Some (JString ''abc123'') \<and>
   ObtainContainerConfig (example_platform [] []) new_instance (example_document ''abc123'' []) [] =
     Inr (new_instance, [Syslog LOG_WARNING
       ''Attempt in ObtainContainerConfig to get container %s config information returned null''
       (Some ''abc123'')]) \<and>
   ObtainContainerState new_instance (example_document ''abc123'' []) [] =
     Inr (new_instance, [Syslog LOG_WARNING
       ''Attempt in ObtainContainerState to get container %s state information returned null''
       (Some ''abc123'')]) \<and>
   ObtainContainerHostConfig (example_platform [] []) new_instance (example_document ''abc123'' []) [] =
     Inr (new_instance, [Syslog LOG_WARNING
       ''Attempt in ObtainContainerHostConfig to get container %s host config information returned null''
       (Some ''abc123'')])"
proof -
  have none: "cJSON_GetObjectItem (JObject []) name = None" for name
    by (simp add: cJSON_GetObjectItem_def)
  have sub: "cJSON_GetObjectItem (example_document ''abc123'' []) ''Config'' = None"
    "cJSON_GetObjectItem (example_document ''abc123'' []) ''State'' = None"
    "cJSON_GetObjectItem (example_document ''abc123'' []) ''HostConfig'' = None"
    by (simp_all add: example_document_sub)
  have ident: "cJSON_GetObjectItem (example_document ''abc123'' []) ''Id'' = Some (JString ''abc123'')"
    by (simp add: example_document_top)
  show ?thesis
    using warning_path_needs_Id [of "JObject []" "example_platform [] []" new_instance "[]"]
      warning_path_needs_Id
        [of "example_document ''abc123'' []" "example_platform [] []" new_instance "[]"]
      none sub ident
    by simp
qed

section \<open>The compose group\<close>

text \<open>
  C9. On a document whose Config sub-object is present, the record's ComposeGroup is set
  exactly when Config has a "Labels" member that has a "com.docker.compose.project"
  member, and then to that member's string; when either is missing the property stays
  unset (it is not set to an empty string), and the Config extractor logs nothing. The
  extractor returns whenever "Hostname" is there.
\<close>

theorem ComposeGroup_set_iff_label:
  assumes "cJSON_GetObjectItem entry ''Config'' = Some config"
  shows "(\<forall>inst r lg lg'. ObtainContainerConfig P inst entry lg = Inr (r, lg') \<longrightarrow>
            lg' = lg \<and>
            ComposeGroup r =
              (case cJSON_GetObjectItem config ''Labels'' of
                 None \<Rightarrow> ComposeGroup inst
               | Some labels \<Rightarrow>
                   (case cJSON_GetObjectItem labels ''com.docker.compose.project'' of
                      None \<Rightarrow> ComposeGroup inst
                    | Some groupName \<Rightarrow> Some (valuestring groupName)))) \<and>
         (\<forall>ident rest r lg lg'.
            getResponse P [restDockerInspect ident] = Some entry # rest \<and>
            InspectContainer P ident lg = Inr (r, lg') \<longrightarrow>
            (ComposeGroup r \<noteq> None \<longleftrightarrow>
               (\<exists>labels groupName.
                  cJSON_GetObjectItem config ''Labels'' = Some labels \<and>
                  cJSON_GetObjectItem labels ''com.docker.compose.project'' = Some groupName)) \<and>
            (\<forall>labels groupName.
               cJSON_GetObjectItem config ''Labels'' = Some labels \<and>
               cJSON_GetObjectItem labels ''com.docker.compose.project'' = Some groupName \<longrightarrow>
               ComposeGroup r = Some (valuestring groupName))) \<and>
         (\<forall>inst lg. cJSON_GetObjectItem config ''Hostname'' \<noteq> None \<longrightarrow>
            (\<exists>r. ObtainContainerConfig P inst entry lg = Inr (r, lg)))"
proof (intro conjI allI impI)
  fix inst r lg lg'
  assume "ObtainContainerConfig P inst entry lg = Inr (r, lg')"
  then show "lg' = lg"
    and "ComposeGroup r =
              (case cJSON_GetObjectItem config ''Labels'' of
                 None \<Rightarrow> ComposeGroup inst
               | Some labels \<Rightarrow>
                   (case cJSON_GetObjectItem labels ''com.docker.compose.project'' of
                      None \<Rightarrow> ComposeGroup inst
                    | Some groupName \<Rightarrow> Some (valuestring groupName)))"
    unfolding ObtainContainerConfig_present [OF assms]
    by (auto split: option.splits)
next
  fix inst lg
  assume "cJSON_GetObjectItem config ''Hostname'' \<noteq> None"
  then show "\<exists>r. ObtainContainerConfig P inst entry lg = Inr (r, lg)"
    unfolding ObtainContainerConfig_present [OF assms] by auto
next
  fix ident rest r lg lg'
  assume a: "getResponse P [restDockerInspect ident] = Some entry # rest \<and>
             InspectContainer P ident lg = Inr (r, lg')"
  from InspectContainer_returns [of P ident entry rest lg r lg'] a
  obtain idItem imageItem createdItem inst1 lg1 inst2 lg2 where
        c: "ObtainContainerConfig P
              (new_instance\<lparr>InstanceID := Some (valuestring idItem),
                             ImageId := Some (valuestring imageItem),
                             CreatedTime := Some (valuestring createdItem)\<rparr>) entry lg =
            Inr (inst1, lg1)"
    and s: "ObtainContainerState inst1 entry lg1 = Inr (inst2, lg2)"
    and h: "ObtainContainerHostConfig P inst2 entry lg2 = Inr (r, lg')"
    by blast
  have fresh: "ComposeGroup (new_instance\<lparr>InstanceID := Some (valuestring idItem),
                             ImageId := Some (valuestring imageItem),
                             CreatedTime := Some (valuestring createdItem)\<rparr>) = None"
    by (simp add: new_instance_def)
  have "ComposeGroup r = ComposeGroup inst1"
    using ObtainContainerState_keeps_config [OF s] ObtainContainerHostConfig_keeps_config [OF h]
    by simp
  then have eq: "ComposeGroup r =
              (case cJSON_GetObjectItem config ''Labels'' of
                 None \<Rightarrow> None
               | Some labels \<Rightarrow>
                   (case cJSON_GetObjectItem labels ''com.docker.compose.project'' of
                      None \<Rightarrow> None
                    | Some groupName \<Rightarrow> Some (valuestring groupName)))"
    using c fresh unfolding ObtainContainerConfig_present [OF assms]
    by (auto split: option.splits)
  show "ComposeGroup r \<noteq> None \<longleftrightarrow>
               (\<exists>labels groupName.
                  cJSON_GetObjectItem config ''Labels'' = Some labels \<and>
                  cJSON_GetObjectItem labels ''com.docker.compose.project'' = Some groupName)"
    unfolding eq by (auto split: option.splits)
  fix labels groupName
  assume "cJSON_GetObjectItem config ''Labels'' = Some labels \<and>
          cJSON_GetObjectItem labels ''com.docker.compose.project'' = Some groupName"
  then show "ComposeGroup r = Some (valuestring groupName)"
    unfolding eq by simp
qed

theorem ComposeGroup_set_iff_label_witness:
  "cJSON_GetObjectItem (example_full ''abc123'') ''Config'' = Some example_config \<and>
   getResponse (example_platform [''abc123''] [(''abc123'', example_full ''abc123'')])
     [restDockerInspect ''abc123''] = Some (example_full ''abc123'') # [] \<and>
   InspectContainer (example_platform [''abc123''] [(''abc123'', example_full ''abc123'')])
     ''abc123'' [] = Inr (example_record ''abc123'', []) \<and>
   cJSON_GetObjectItem example_config ''Labels'' =
     Some (JObject [(''com.docker.compose.project'', JString ''grp'')]) \<and>
   cJSON_GetObjectItem (JObject [(''com.docker.compose.project'', JString ''grp'')])
     ''com.docker.compose.project'' = Some (JString ''grp'') \<and>
   ComposeGroup (example_record ''abc123'') = Some (Some ''grp'') \<and>
   cJSON_GetObjectItem
     (example_document ''abc123'' [(''Config'', JObject [(''Hostname'', JString ''h1'')])])
     ''Config'' = Some (JObject [(''Hostname'', JString ''h1'')]) \<and>
   cJSON_GetObjectItem (JObject [(''Hostname'', JString ''h1'')]) ''Hostname'' \<noteq> None \<and>
   (\<exists>r. ObtainContainerConfig (example_platform [] []) new_instance
          (example_document ''abc123'' [(''Config'', JObject [(''Hostname'', JString ''h1'')])]) [] =
        Inr (r, []) \<and> ComposeGroup r = None)"
proof -
  let ?P = "example_platform [''abc123''] [(''abc123'', example_full ''abc123'')]"
  let ?bare = "example_document ''abc123'' [(''Config'', JObject [(''Hostname'', JString ''h1'')])]"
  have cfg: "cJSON_GetObjectItem (example_full ''abc123'') ''Config'' = Some example_config"
    by (simp add: example_full_def example_document_sub)
  have resp: "getResponse ?P [restDockerInspect ''abc123''] = Some (example_full ''abc123'') # []"
    by (simp add: example_platform_response)
  have insp: "InspectContainer ?P ''abc123'' [] = Inr (example_record ''abc123'', [])"
    by (simp add: example_full_inspected)
  have grp: "ComposeGroup (example_record ''abc123'') = Some (valuestring (JString ''grp''))"
    using ComposeGroup_set_iff_label [OF cfg, of ?P] resp insp example_config_children(4,5)
    by blast
  have cfg': "cJSON_GetObjectItem ?bare ''Config'' = Some (JObject [(''Hostname'', JString ''h1'')])"
    by (simp add: example_document_sub)
  have host: "cJSON_GetObjectItem (JObject [(''Hostname'', JString ''h1'')]) ''Hostname'' \<noteq> None"
    and nolabels: "cJSON_GetObjectItem (JObject [(''Hostname'', JString ''h1'')]) ''Labels'' = None"
    by (simp_all add: cJSON_GetObjectItem_def)
  have fresh: "ComposeGroup new_instance = None"
    by (simp add: new_instance_def)
  from ComposeGroup_set_iff_label [OF cfg', of "example_platform [] []"] host
  obtain r where r: "ObtainContainerConfig (example_platform [] []) new_instance ?bare [] = Inr (r, [])"
    by blast
  with ComposeGroup_set_iff_label [OF cfg', of "example_platform [] []"]
  have "ComposeGroup r =
          (case cJSON_GetObjectItem (JObject [(''Hostname'', JString ''h1'')]) ''Labels'' of
             None \<Rightarrow> ComposeGroup new_instance
           | Some labels \<Rightarrow>
               (case cJSON_GetObjectItem labels ''com.docker.compose.project'' of
                  None \<Rightarrow> ComposeGroup new_instance
                | Some groupName \<Rightarrow> Some (valuestring groupName)))"
    by blast
  then have "ComposeGroup r = None"
    by (simp add: nolabels fresh)
  with r have ex: "\<exists>r. ObtainContainerConfig (example_platform [] []) new_instance ?bare [] =
        Inr (r, []) \<and> ComposeGroup r = None"
    by blast
  from grp have grp': "ComposeGroup (example_record ''abc123'') = Some (Some ''grp'')"
    by simp
  from cfg resp insp example_config_children(4,5) grp' cfg' host ex show ?thesis
    by blast
qed

section \<open>Unchecked lookups\<close>

lemma ObtainContainerConfig_missing_child:
  assumes "cJSON_GetObjectItem entry ''Config'' = Some config"
      and "cJSON_GetObjectItem config ''Hostname'' = None"
  shows "ObtainContainerConfig P inst entry lg = Inl NullDereference"
  unfolding ObtainContainerConfig_present [OF assms(1)] by (simp add: assms(2))

lemma ObtainContainerState_missing_flag:
  assumes "cJSON_GetObjectItem entry ''State'' = Some state"
      and "cJSON_GetObjectItem state ''ExitCode'' = Some exitCodeItem"
      and "valueint exitCodeItem = 0"
      and "cJSON_GetObjectItem state ''Running'' = None \<or>
           (\<exists>running. cJSON_GetObjectItem state ''Running'' = Some running \<and>
              valueint running = 0 \<and> cJSON_GetObjectItem state ''Paused'' = None)"
  shows "ObtainContainerState inst entry lg = Inl NullDereference"
  using assms
  by (auto simp: ObtainContainerState_def Let_def split: option.splits sum.splits if_splits)

lemma InspectContainer_missing_top:
  assumes "getResponse P [restDockerInspect ident] = Some response0 # rest"
      and "cJSON_GetObjectItem response0 ''Id'' = None \<or>
           cJSON_GetObjectItem response0 ''Image'' = None \<or>
           cJSON_GetObjectItem response0 ''Created'' = None"
  shows "InspectContainer P ident lg = Inl NullDereference"
  using assms(2) unfolding InspectContainer_present [OF assms(1)]
  by (auto split: option.splits)

lemma ObtainContainerConfig_safe:
  assumes "cJSON_GetObjectItem entry ''Id'' \<noteq> None"
      and "\<forall>config. cJSON_GetObjectItem entry ''Config'' = Some config \<longrightarrow>
             cJSON_GetObjectItem config ''Hostname'' \<noteq> None"
  shows "\<exists>r lg'. ObtainContainerConfig P inst entry lg = Inr (r, lg')"
proof (cases "cJSON_GetObjectItem entry ''Config''")
  case None
  with assms(1) show ?thesis
    by (auto simp: ObtainContainerConfig_absent)
next
  case (Some config)
  with assms(2) show ?thesis
    by (auto simp: ObtainContainerConfig_present)
qed

lemma ObtainContainerState_safe:
  assumes "cJSON_GetObjectItem entry ''Id'' \<noteq> None"
      and "\<forall>state. cJSON_GetObjectItem entry ''State'' = Some state \<longrightarrow>
             cJSON_GetObjectItem state ''ExitCode'' \<noteq> None \<and>
             cJSON_GetObjectItem state ''Running'' \<noteq> None \<and>
             cJSON_GetObjectItem state ''Paused'' \<noteq> None"
  shows "\<exists>r lg'. ObtainContainerState inst entry lg = Inr (r, lg')"
proof (cases "cJSON_GetObjectItem entry ''State''")
  case None
  with assms(1) show ?thesis
    by (auto simp: ObtainContainerState_absent)
next
  case (Some state)
  with assms(2) obtain e r p where
    e: "cJSON_GetObjectItem state ''ExitCode'' = Some e"
    and "cJSON_GetObjectItem state ''Running'' = Some r"
    and "cJSON_GetObjectItem state ''Paused'' = Some p"
    by auto
  then show ?thesis
    by (simp add: ObtainContainerState_present [OF Some e])
qed

lemma ObtainContainerState_reads_enough:
  assumes "cJSON_GetObjectItem entry ''State'' = Some state"
      and "cJSON_GetObjectItem state ''ExitCode'' = Some exitCodeItem"
      and "valueint exitCodeItem \<noteq> 0 \<or>
           (\<exists>running. cJSON_GetObjectItem state ''Running'' = Some running \<and>
              (valueint running \<noteq> 0 \<or> cJSON_GetObjectItem state ''Paused'' \<noteq> None))"
  shows "\<exists>r. ObtainContainerState inst entry lg = Inr (r, lg)"
  using assms(3) unfolding ObtainContainerState_present [OF assms(1,2)]
  by auto

lemma ObtainContainerHostConfig_safe:
  assumes "cJSON_GetObjectItem entry ''Id'' \<noteq> None"
  shows "\<exists>r lg'. ObtainContainerHostConfig P inst entry lg = Inr (r, lg')"
  using assms
  by (cases "cJSON_GetObjectItem entry ''HostConfig''")
     (auto simp: ObtainContainerHostConfig_absent ObtainContainerHostConfig_present)

lemma ObtainContainerConfig_returned:
  assumes "ObtainContainerConfig P inst entry lg = Inr x"
      and "cJSON_GetObjectItem entry ''Config'' = Some config"
  shows "cJSON_GetObjectItem config ''Hostname'' \<noteq> None"
  using assms by (auto simp: ObtainContainerConfig_present split: option.splits)

lemma ObtainContainerState_returned:
  assumes "ObtainContainerState inst entry lg = Inr x"
      and "cJSON_GetObjectItem entry ''State'' = Some state"
  shows "\<exists>exitCodeItem.
           cJSON_GetObjectItem state ''ExitCode'' = Some exitCodeItem \<and>
           (valueint exitCodeItem = 0 \<longrightarrow>
              (\<exists>running. cJSON_GetObjectItem state ''Running'' = Some running \<and>
                 (valueint running = 0 \<longrightarrow> cJSON_GetObjectItem state ''Paused'' \<noteq> None)))"
  using assms
  by (auto simp: ObtainContainerState_def Let_def split: option.splits sum.splits if_splits)

lemma InspectContainer_safe:
  assumes "getResponse P [restDockerInspect ident] = Some response0 # rest"
      and "cJSON_GetObjectItem response0 ''Id'' \<noteq> None"
      and "cJSON_GetObjectItem response0 ''Image'' \<noteq> None"
      and "cJSON_GetObjectItem response0 ''Created'' \<noteq> None"
      and "\<forall>config. cJSON_GetObjectItem response0 ''Config'' = Some config \<longrightarrow>
             cJSON_GetObjectItem config ''Hostname'' \<noteq> None"
      and "\<forall>state. cJSON_GetObjectItem response0 ''State'' = Some state \<longrightarrow>
             cJSON_GetObjectItem state ''ExitCode'' \<noteq> None \<and>
             cJSON_GetObjectItem state ''Running'' \<noteq> None \<and>
             cJSON_GetObjectItem state ''Paused'' \<noteq> None"
  shows "\<exists>r lg'. InspectContainer P ident lg = Inr (r, lg')"
proof -
  from assms(2,3,4) obtain idItem imageItem createdItem where
    top: "cJSON_GetObjectItem response0 ''Id'' = Some idItem"
         "cJSON_GetObjectItem response0 ''Image'' = Some imageItem"
         "cJSON_GetObjectItem response0 ''Created'' = Some createdItem"
    by auto
  let ?inst = "new_instance\<lparr>InstanceID := Some (valuestring idItem),
                             ImageId := Some (valuestring imageItem),
                             CreatedTime := Some (valuestring createdItem)\<rparr>"
  from ObtainContainerConfig_safe [OF assms(2) assms(5)]
  obtain inst1 lg1 where c: "ObtainContainerConfig P ?inst response0 lg = Inr (inst1, lg1)"
    by blast
  from ObtainContainerState_safe [OF assms(2) assms(6)]
  obtain inst2 lg2 where s: "ObtainContainerState inst1 response0 lg1 = Inr (inst2, lg2)"
    by blast
  from ObtainContainerHostConfig_safe [OF assms(2)]
  obtain r lg' where h: "ObtainContainerHostConfig P inst2 response0 lg2 = Inr (r, lg')"
    by blast
  show ?thesis
    unfolding InspectContainer_present [OF assms(1)]
    by (simp add: top c s h)
qed

lemma InspectContainer_returned:
  assumes "getResponse P [restDockerInspect ident] = Some response0 # rest"
      and "InspectContainer P ident lg = Inr (r, lg')"
  shows "cJSON_GetObjectItem response0 ''Id'' \<noteq> None \<and>
         cJSON_GetObjectItem response0 ''Image'' \<noteq> None \<and>
         cJSON_GetObjectItem response0 ''Created'' \<noteq> None \<and>
         (\<forall>config. cJSON_GetObjectItem response0 ''Config'' = Some config \<longrightarrow>
            cJSON_GetObjectItem config ''Hostname'' \<noteq> None) \<and>
         (\<forall>state. cJSON_GetObjectItem response0 ''State'' = Some state \<longrightarrow>
            (\<exists>exitCodeItem.
               cJSON_GetObjectItem state ''ExitCode'' = Some exitCodeItem \<and>
               (valueint exitCodeItem = 0 \<longrightarrow>
                  (\<exists>running. cJSON_GetObjectItem state ''Running'' = Some running \<and>
                     (valueint running = 0 \<longrightarrow>
                        cJSON_GetObjectItem state ''Paused'' \<noteq> None)))))"
proof -
  from InspectContainer_returns [OF assms]
  obtain idItem imageItem createdItem inst0 inst1 lg1 inst2 lg2 where
        top: "cJSON_GetObjectItem response0 ''Id'' = Some idItem"
             "cJSON_GetObjectItem response0 ''Image'' = Some imageItem"
             "cJSON_GetObjectItem response0 ''Created'' = Some createdItem"
    and c: "ObtainContainerConfig P inst0 response0 lg = Inr (inst1, lg1)"
    and s: "ObtainContainerState inst1 response0 lg1 = Inr (inst2, lg2)"
    by blast
  show ?thesis
    using top ObtainContainerConfig_returned [OF c] ObtainContainerState_returned [OF s]
    by simp
qed

text \<open>
  C6, amended. A lookup result is dereferenced unchecked, and the extraction is a null
  dereference, when the document lacks "Id", "Image" or "Created"; when Config is present
  without "Hostname"; when State is present without "ExitCode"; when State is present
  with a zero exit code and without "Running"; and when State is present with a zero
  exit code, a zero Running and without "Paused". A missing "StartedAt" or "FinishedAt"
  is not fatal: the two are looked up and the result is discarded unread, so the State
  extractor returns as soon as the members its decision chain reads are there. If "Id",
  "Image", "Created", "Hostname" (under a present Config) and "ExitCode", "Running" and
  "Paused" (under a present State) are present the inspection returns a record. An
  inspection that returns a record had all of them, except a "Running" or "Paused" that
  the decision chain did not reach.
\<close>

theorem unchecked_lookups:
  assumes "getResponse P [restDockerInspect ident] = Some entry # rest"
  shows "(cJSON_GetObjectItem entry ''Id'' = None \<or> cJSON_GetObjectItem entry ''Image'' = None \<or>
          cJSON_GetObjectItem entry ''Created'' = None \<longrightarrow>
            InspectContainer P ident lg = Inl NullDereference) \<and>
         (\<forall>config. cJSON_GetObjectItem entry ''Config'' = Some config \<and>
            cJSON_GetObjectItem config ''Hostname'' = None \<longrightarrow>
            ObtainContainerConfig P inst entry lg = Inl NullDereference) \<and>
         (\<forall>state. cJSON_GetObjectItem entry ''State'' = Some state \<and>
            cJSON_GetObjectItem state ''ExitCode'' = None \<longrightarrow>
            ObtainContainerState inst entry lg = Inl NullDereference) \<and>
         (\<forall>state exitCodeItem. cJSON_GetObjectItem entry ''State'' = Some state \<and>
            cJSON_GetObjectItem state ''ExitCode'' = Some exitCodeItem \<and>
            valueint exitCodeItem = 0 \<and> cJSON_GetObjectItem state ''Running'' = None \<longrightarrow>
            ObtainContainerState inst entry lg = Inl NullDereference) \<and>
         (\<forall>state exitCodeItem running. cJSON_GetObjectItem entry ''State'' = Some state \<and>
            cJSON_GetObjectItem state ''ExitCode'' = Some exitCodeItem \<and>
            valueint exitCodeItem = 0 \<and>
            cJSON_GetObjectItem state ''Running'' = Some running \<and> valueint running = 0 \<and>
            cJSON_GetObjectItem state ''Paused'' = None \<longrightarrow>
            ObtainContainerState inst entry lg = Inl NullDereference) \<and>
         (\<forall>state exitCodeItem. cJSON_GetObjectItem entry ''State'' = Some state \<and>
            cJSON_GetObjectItem state ''ExitCode'' = Some exitCodeItem \<and>
            (valueint exitCodeItem \<noteq> 0 \<or>
             (\<exists>running. cJSON_GetObjectItem state ''Running'' = Some running \<and>
                (valueint running \<noteq> 0 \<or> cJSON_GetObjectItem state ''Paused'' \<noteq> None))) \<longrightarrow>
            (\<exists>r. ObtainContainerState inst entry lg = Inr (r, lg))) \<and>
         (cJSON_GetObjectItem entry ''Id'' \<noteq> None \<and> cJSON_GetObjectItem entry ''Image'' \<noteq> None \<and>
          cJSON_GetObjectItem entry ''Created'' \<noteq> None \<and>
          (\<forall>config. cJSON_GetObjectItem entry ''Config'' = Some config \<longrightarrow>
             cJSON_GetObjectItem config ''Hostname'' \<noteq> None) \<and>
          (\<forall>state. cJSON_GetObjectItem entry ''State'' = Some state \<longrightarrow>
             cJSON_GetObjectItem state ''ExitCode'' \<noteq> None \<and>
             cJSON_GetObjectItem state ''Running'' \<noteq> None \<and>
             cJSON_GetObjectItem state ''Paused'' \<noteq> None) \<longrightarrow>
            (\<exists>r lg'. InspectContainer P ident lg = Inr (r, lg'))) \<and>
         (\<forall>r lg'. InspectContainer P ident lg = Inr (r, lg') \<longrightarrow>
            cJSON_GetObjectItem entry ''Id'' \<noteq> None \<and>
            cJSON_GetObjectItem entry ''Image'' \<noteq> None \<and>
            cJSON_GetObjectItem entry ''Created'' \<noteq> None \<and>
            (\<forall>config. cJSON_GetObjectItem entry ''Config'' = Some config \<longrightarrow>
               cJSON_GetObjectItem config ''Hostname'' \<noteq> None) \<and>
            (\<forall>state. cJSON_GetObjectItem entry ''State'' = Some state \<longrightarrow>
               (\<exists>exitCodeItem.
                  cJSON_GetObjectItem state ''ExitCode'' = Some exitCodeItem \<and>
                  (valueint exitCodeItem = 0 \<longrightarrow>
                     (\<exists>running. cJSON_GetObjectItem state ''Running'' = Some running \<and>
                        (valueint running = 0 \<longrightarrow>
                           cJSON_GetObjectItem state ''Paused'' \<noteq> None))))))"
proof (intro conjI)
  show "cJSON_GetObjectItem entry ''Id'' = None \<or> cJSON_GetObjectItem entry ''Image'' = None \<or>
          cJSON_GetObjectItem entry ''Created'' = None \<longrightarrow>
            InspectContainer P ident lg = Inl NullDereference"
    using InspectContainer_missing_top [OF assms] by blast
next
  show "\<forall>config. cJSON_GetObjectItem entry ''Config'' = Some config \<and>
            cJSON_GetObjectItem config ''Hostname'' = None \<longrightarrow>
            ObtainContainerConfig P inst entry lg = Inl NullDereference"
    using ObtainContainerConfig_missing_child by blast
next
  show "\<forall>state. cJSON_GetObjectItem entry ''State'' = Some state \<and>
            cJSON_GetObjectItem state ''ExitCode'' = None \<longrightarrow>
            ObtainContainerState inst entry lg = Inl NullDereference"
    using ObtainContainerState_missing_child by blast
next
  show "\<forall>state exitCodeItem. cJSON_GetObjectItem entry ''State'' = Some state \<and>
            cJSON_GetObjectItem state ''ExitCode'' = Some exitCodeItem \<and>
            valueint exitCodeItem = 0 \<and> cJSON_GetObjectItem state ''Running'' = None \<longrightarrow>
            ObtainContainerState inst entry lg = Inl NullDereference"
    using ObtainContainerState_missing_flag by blast
next
  show "\<forall>state exitCodeItem running. cJSON_GetObjectItem entry ''State'' = Some state \<and>
            cJSON_GetObjectItem state ''ExitCode'' = Some exitCodeItem \<and>
            valueint exitCodeItem = 0 \<and>
            cJSON_GetObjectItem state ''Running'' = Some running \<and> valueint running = 0 \<and>
            cJSON_GetObjectItem state ''Paused'' = None \<longrightarrow>
            ObtainContainerState inst entry lg = Inl NullDereference"
    using ObtainContainerState_missing_flag by blast
next
  show "\<forall>state exitCodeItem. cJSON_GetObjectItem entry ''State'' = Some state \<and>
            cJSON_GetObjectItem state ''ExitCode'' = Some exitCodeItem \<and>
            (valueint exitCodeItem \<noteq> 0 \<or>
             (\<exists>running. cJSON_GetObjectItem state ''Running'' = Some running \<and>
                (valueint running \<noteq> 0 \<or> cJSON_GetObjectItem state ''Paused'' \<noteq> None))) \<longrightarrow>
            (\<exists>r. ObtainContainerState inst entry lg = Inr (r, lg))"
    using ObtainContainerState_reads_enough by blast
next
  show "cJSON_GetObjectItem entry ''Id'' \<noteq> None \<and> cJSON_GetObjectItem entry ''Image'' \<noteq> None \<and>
          cJSON_GetObjectItem entry ''Created'' \<noteq> None \<and>
          (\<forall>config. cJSON_GetObjectItem entry ''Config'' = Some config \<longrightarrow>
             cJSON_GetObjectItem config ''Hostname'' \<noteq> None) \<and>
          (\<forall>state. cJSON_GetObjectItem entry ''State'' = Some state \<longrightarrow>
             cJSON_GetObjectItem state ''ExitCode'' \<noteq> None \<and>
             cJSON_GetObjectItem state ''Running'' \<noteq> None \<and>
             cJSON_GetObjectItem state ''Paused'' \<noteq> None) \<longrightarrow>
            (\<exists>r lg'. InspectContainer P ident lg = Inr (r, lg'))"
    using InspectContainer_safe [OF assms] by blast
next
  show "\<forall>r lg'. InspectContainer P ident lg = Inr (r, lg') \<longrightarrow>
            cJSON_GetObjectItem entry ''Id'' \<noteq> None \<and>
            cJSON_GetObjectItem entry ''Image'' \<noteq> None \<and>
            cJSON_GetObjectItem entry ''Created'' \<noteq> None \<and>
            (\<forall>config. cJSON_GetObjectItem entry ''Config'' = Some config \<longrightarrow>
               cJSON_GetObjectItem config ''Hostname'' \<noteq> None) \<and>
            (\<forall>state. cJSON_GetObjectItem entry ''State'' = Some state \<longrightarrow>
               (\<exists>exitCodeItem.
                  cJSON_GetObjectItem state ''ExitCode'' = Some exitCodeItem \<and>
                  (valueint exitCodeItem = 0 \<longrightarrow>
                     (\<exists>running. cJSON_GetObjectItem state ''Running'' = Some running \<and>
                        (valueint running = 0 \<longrightarrow>
                           cJSON_GetObjectItem state ''Paused'' \<noteq> None)))))"
    using InspectContainer_returned [OF assms] by blast
qed

theorem unchecked_lookups_witness:
  "getResponse
     (example_platform [''abc123'']
        [(''abc123'', example_document ''abc123'' [(''State'', example_flags_state 0 1 0)])])
     [restDockerInspect ''abc123''] =
     Some (example_document ''abc123'' [(''State'', example_flags_state 0 1 0)]) # [] \<and>
   cJSON_GetObjectItem (example_document ''abc123'' [(''State'', example_flags_state 0 1 0)])
     ''Id'' \<noteq> None \<and>
   cJSON_GetObjectItem (example_document ''abc123'' [(''State'', example_flags_state 0 1 0)])
     ''Image'' \<noteq> None \<and>
   cJSON_GetObjectItem (example_document ''abc123'' [(''State'', example_flags_state 0 1 0)])
     ''Created'' \<noteq> None \<and>
   cJSON_GetObjectItem (example_document ''abc123'' [(''State'', example_flags_state 0 1 0)])
     ''Config'' = None \<and>
   cJSON_GetObjectItem (example_document ''abc123'' [(''State'', example_flags_state 0 1 0)])
     ''State'' = Some (example_flags_state 0 1 0) \<and>
   cJSON_GetObjectItem (example_flags_state 0 1 0) ''ExitCode'' \<noteq> None \<and>
   cJSON_GetObjectItem (example_flags_state 0 1 0) ''Running'' \<noteq> None \<and>
   cJSON_GetObjectItem (example_flags_state 0 1 0) ''Paused'' \<noteq> None \<and>
   cJSON_GetObjectItem (example_flags_state 0 1 0) ''StartedAt'' = None \<and>
   cJSON_GetObjectItem (example_flags_state 0 1 0) ''FinishedAt'' = None \<and>
   (\<exists>r lg'. InspectContainer
      (example_platform [''abc123'']
         [(''abc123'', example_document ''abc123'' [(''State'', example_flags_state 0 1 0)])])
      ''abc123'' [] = Inr (r, lg')) \<and>
   getResponse
     (example_platform [''abc123'']
        [(''abc123'', example_document ''abc123'' [(''Config'', JObject [])])])
     [restDockerInspect ''abc123''] =
     Some (example_document ''abc123'' [(''Config'', JObject [])]) # [] \<and>
   cJSON_GetObjectItem (example_document ''abc123'' [(''Config'', JObject [])]) ''Config'' =
     Some (JObject []) \<and>
   cJSON_GetObjectItem (JObject []) ''Hostname'' = None \<and>
   ObtainContainerConfig
     (example_platform [''abc123'']
        [(''abc123'', example_document ''abc123'' [(''Config'', JObject [])])])
     new_instance (example_document ''abc123'' [(''Config'', JObject [])]) [] =
     Inl NullDereference \<and>
   getResponse (example_platform [''abc123''] [(''abc123'', JObject [])])
     [restDockerInspect ''abc123''] = Some (JObject []) # [] \<and>
   cJSON_GetObjectItem (JObject []) ''Id'' = None \<and>
   InspectContainer (example_platform [''abc123''] [(''abc123'', JObject [])]) ''abc123'' [] =
     Inl NullDereference"
proof -
  let ?doc = "example_document ''abc123'' [(''State'', example_flags_state 0 1 0)]"
  let ?P = "example_platform [''abc123''] [(''abc123'', ?doc)]"
  let ?bare = "example_document ''abc123'' [(''Config'', JObject [])]"
  let ?P2 = "example_platform [''abc123''] [(''abc123'', ?bare)]"
  let ?P3 = "example_platform [''abc123''] [(''abc123'', JObject [])]"
  have resp: "getResponse ?P [restDockerInspect ''abc123''] = Some ?doc # []"
    by (simp add: example_platform_response)
  have top: "cJSON_GetObjectItem ?doc ''Id'' \<noteq> None"
    "cJSON_GetObjectItem ?doc ''Image'' \<noteq> None"
    "cJSON_GetObjectItem ?doc ''Created'' \<noteq> None"
    by (simp_all add: example_document_top)
  have sub: "cJSON_GetObjectItem ?doc ''Config'' = None"
    "cJSON_GetObjectItem ?doc ''State'' = Some (example_flags_state 0 1 0)"
    by (simp_all add: example_document_sub)
  have kids: "cJSON_GetObjectItem (example_flags_state 0 1 0) ''ExitCode'' \<noteq> None"
    "cJSON_GetObjectItem (example_flags_state 0 1 0) ''Running'' \<noteq> None"
    "cJSON_GetObjectItem (example_flags_state 0 1 0) ''Paused'' \<noteq> None"
    "cJSON_GetObjectItem (example_flags_state 0 1 0) ''StartedAt'' = None"
    "cJSON_GetObjectItem (example_flags_state 0 1 0) ''FinishedAt'' = None"
    by (simp_all add: example_flags_state_children)
  have safe: "\<exists>r lg'. InspectContainer ?P ''abc123'' [] = Inr (r, lg')"
    using unchecked_lookups [OF resp, of "[]" new_instance] top sub kids
    by simp
  have resp2: "getResponse ?P2 [restDockerInspect ''abc123''] = Some ?bare # []"
    by (simp add: example_platform_response)
  have cfg2: "cJSON_GetObjectItem ?bare ''Config'' = Some (JObject [])"
    by (simp add: example_document_sub)
  have none: "cJSON_GetObjectItem (JObject []) name = None" for name
    by (simp add: cJSON_GetObjectItem_def)
  have fatal: "ObtainContainerConfig ?P2 new_instance ?bare [] = Inl NullDereference"
    using unchecked_lookups [OF resp2, of "[]" new_instance] cfg2 none
    by blast
  have resp3: "getResponse ?P3 [restDockerInspect ''abc123''] = Some (JObject []) # []"
    by (simp add: example_platform_response)
  have fatal3: "InspectContainer ?P3 ''abc123'' [] = Inl NullDereference"
    using unchecked_lookups [OF resp3, of "[]" new_instance] none
    by blast
  from resp top sub kids safe resp2 cfg2 none [of "''Hostname''"] fatal resp3 none [of "''Id''"] fatal3
  show ?thesis by blast
qed

text \<open>
  C6 as stated fails: a document whose State is present and has neither "Running"
  nor "Paused" is inspected without a fault when its exit code is not zero; and a State
  that has neither "StartedAt" nor "FinishedAt" is extracted without a fault.
\<close>

theorem missing_flags_not_fatal:
  "cJSON_GetObjectItem (example_exited ''abc123'') ''State'' = Some example_exited_state \<and>
   cJSON_GetObjectItem example_exited_state ''Running'' = None \<and>
   cJSON_GetObjectItem example_exited_state ''Paused'' = None \<and>
   getResponse (example_platform [''abc123''] [(''abc123'', example_exited ''abc123'')])
     [restDockerInspect ''abc123''] = [Some (example_exited ''abc123'')] \<and>
   InspectContainer (example_platform [''abc123''] [(''abc123'', example_exited ''abc123'')])
     ''abc123'' [] =
     Inr ((example_record ''abc123'')\<lparr>ExitCode := Some 1, State := Some (Some ''Failed'')\<rparr>, []) \<and>
   cJSON_GetObjectItem (example_document ''abc123'' [(''State'', example_killed_state)]) ''State'' =
     Some example_killed_state \<and>
   cJSON_GetObjectItem example_killed_state ''StartedAt'' = None \<and>
   cJSON_GetObjectItem example_killed_state ''FinishedAt'' = None \<and>
   ObtainContainerState new_instance
       (example_document ''abc123'' [(''State'', example_killed_state)]) [] =
     Inr (new_instance\<lparr>ExitCode := Some 137, State := Some (Some ''Failed'')\<rparr>, [])"
proof -
  have st: "cJSON_GetObjectItem (example_document ''abc123'' [(''State'', example_killed_state)])
              ''State'' = Some example_killed_state"
    by (simp add: example_document_sub)
  show ?thesis
    by (simp add: example_exited_inspected example_exited_state_children
          example_platform_response example_exited_def example_document_sub
          ObtainContainerState_present [OF st example_killed_state_children(1)]
          example_killed_state_children)
qed

section \<open>The collection loop\<close>

lemma QueryAll_unfold:
  "QueryAll P =
     QueryAll_loop P (if fst (gethostname P) \<noteq> 0 then '''' else snd (gethostname P))
       (listContainer P True) 0 ([], [])"
  by (simp add: QueryAll_def Let_def)

text \<open>
  With two identifiers or more the first iteration already ends the collection: either the
  inspection is a fault, or the stamp is.
\<close>

lemma QueryAll_first_stamp:
  assumes "2 \<le> length (listContainer P True)"
      and "InspectContainer P (listContainer P True ! 0) [] = Inr (inst, lg')"
  shows "QueryAll P = Inl OutOfBounds"
proof -
  have "0 < length (listContainer P True)"
    using assms(1) by linarith
  from QueryAll_loop_step [OF this assms(2)] assms(1) show ?thesis
    by (simp add: QueryAll_unfold)
qed

lemma QueryAll_no_return:
  assumes "2 \<le> length (listContainer P True)"
  shows "QueryAll P \<noteq> Inr r"
proof (cases "InspectContainer P (listContainer P True ! 0) []")
  case (Inl e)
  have "0 < length (listContainer P True)"
    using assms by linarith
  from QueryAll_loop_fault [OF this Inl] show ?thesis
    by (simp add: QueryAll_unfold)
next
  case (Inr x)
  then show ?thesis
    using QueryAll_first_stamp [OF assms, of "fst x" "snd x"] by simp
qed

lemma QueryAll_loop_last:
  assumes "containerIds \<noteq> []"
      and "length result = length containerIds - 1"
      and "InspectContainer P (containerIds ! (length containerIds - 1)) lg = Inr (inst, lg')"
  shows "QueryAll_loop P hostname containerIds (length containerIds - 1) (result, lg) =
           Inr (result @ [inst\<lparr>ImageId := Some (Some hostname)\<rparr>], lg')"
proof -
  have last: "length containerIds - 1 = length result"
    using assms(2) by simp
  have i: "length result < length containerIds"
    using assms(1,2) by (cases containerIds) auto
  have insp: "InspectContainer P (containerIds ! length result) lg = Inr (inst, lg')"
    using assms(3) unfolding last .
  have "QueryAll_loop P hostname containerIds (length result) (result, lg) =
          QueryAll_loop P hostname containerIds (length result + 1)
            (result @ [inst\<lparr>ImageId := Some (Some hostname)\<rparr>], lg')"
    using QueryAll_loop_step [OF i insp, of hostname result] unfolding last
    by simp
  also have "\<dots> = Inr (result @ [inst\<lparr>ImageId := Some (Some hostname)\<rparr>], lg')"
    using assms(1,2) by (intro QueryAll_loop_done) (cases containerIds, auto)
  finally show ?thesis
    unfolding last .
qed

text \<open>
  C4. With at least two identifiers, in every iteration \<open>i\<close> before the last the vector
  holds \<open>i + 1\<close> records when it is indexed at \<open>size - 1\<close>, which is not below
  \<open>i + 1\<close>: the stamp is out of bounds, and the loop ends there. Only in the last
  iteration is the index within the vector. So \<open>QueryAll\<close> never returns a result for
  two identifiers or more.
\<close>

theorem stamp_out_of_bounds:
  "(\<forall>i result lg inst lg'.
      i < length containerIds - 1 \<and> length result = i \<and>
      InspectContainer P (containerIds ! i) lg = Inr (inst, lg') \<longrightarrow>
        length (result @ [inst]) = i + 1 \<and>
        \<not> length containerIds - 1 < length (result @ [inst]) \<and>
        QueryAll_loop P hostname containerIds i (result, lg) = Inl OutOfBounds) \<and>
   (\<forall>result lg inst lg'.
      containerIds \<noteq> [] \<and> length result = length containerIds - 1 \<and>
      InspectContainer P (containerIds ! (length containerIds - 1)) lg = Inr (inst, lg') \<longrightarrow>
        length containerIds - 1 < length (result @ [inst]) \<and>
        QueryAll_loop P hostname containerIds (length containerIds - 1) (result, lg) =
          Inr (result @ [inst\<lparr>ImageId := Some (Some hostname)\<rparr>], lg')) \<and>
   (2 \<le> length (listContainer P True) \<longrightarrow> (\<forall>r. QueryAll P \<noteq> Inr r))"
proof (intro conjI allI impI)
  fix i and result :: "Container_ContainerInventory_Class list" and lg inst lg'
  assume a: "i < length containerIds - 1 \<and> length result = i \<and>
      InspectContainer P (containerIds ! i) lg = Inr (inst, lg')"
  then show "length (result @ [inst]) = i + 1"
    by simp
  from a show oob: "\<not> length containerIds - 1 < length (result @ [inst])"
    by simp
  from a have "i < length containerIds"
    by linarith
  from QueryAll_loop_step [OF this, of P lg inst lg' hostname result] a oob
  show "QueryAll_loop P hostname containerIds i (result, lg) = Inl OutOfBounds"
    by simp
next
  fix result :: "Container_ContainerInventory_Class list" and lg inst lg'
  assume a: "containerIds \<noteq> [] \<and> length result = length containerIds - 1 \<and>
      InspectContainer P (containerIds ! (length containerIds - 1)) lg = Inr (inst, lg')"
  then show "length containerIds - 1 < length (result @ [inst])"
    by simp
  from a show "QueryAll_loop P hostname containerIds (length containerIds - 1) (result, lg) =
          Inr (result @ [inst\<lparr>ImageId := Some (Some hostname)\<rparr>], lg')"
    using QueryAll_loop_last by blast
next
  fix r
  assume "2 \<le> length (listContainer P True)"
  then show "QueryAll P \<noteq> Inr r"
    by (rule QueryAll_no_return)
qed

theorem stamp_out_of_bounds_witness:
  "(0::nat) < length [''c1'', ''c2''] - 1 \<and> length ([] :: Container_ContainerInventory_Class list) = 0 \<and>
   InspectContainer
     (example_platform [''c1'', ''c2''] [(''c1'', example_full ''c1''), (''c2'', example_full ''c2'')])
     ([''c1'', ''c2''] ! 0) [] = Inr (example_record ''c1'', []) \<and>
   \<not> length [''c1'', ''c2''] - 1 < length ([] @ [example_record ''c1'']) \<and>
   QueryAll_loop
     (example_platform [''c1'', ''c2''] [(''c1'', example_full ''c1''), (''c2'', example_full ''c2'')])
     ''host1'' [''c1'', ''c2''] 0 ([], []) = Inl OutOfBounds \<and>
   [''c2''] \<noteq> [] \<and> length ([] :: Container_ContainerInventory_Class list) = length [''c2''] - 1 \<and>
   InspectContainer (example_platform [''c2''] [(''c2'', example_full ''c2'')])
     ([''c2''] ! (length [''c2''] - 1)) [] = Inr (example_record ''c2'', []) \<and>
   QueryAll_loop (example_platform [''c2''] [(''c2'', example_full ''c2'')])
     ''host1'' [''c2''] (length [''c2''] - 1) ([], []) =
     Inr ([] @ [(example_record ''c2'')\<lparr>ImageId := Some (Some ''host1'')\<rparr>], []) \<and>
   2 \<le> length (listContainer
     (example_platform [''c1'', ''c2''] [(''c1'', example_full ''c1''), (''c2'', example_full ''c2'')])
     True) \<and>
   QueryAll
     (example_platform [''c1'', ''c2''] [(''c1'', example_full ''c1''), (''c2'', example_full ''c2'')]) \<noteq>
     Inr ([example_record ''c1'', (example_record ''c2'')\<lparr>ImageId := Some (Some ''host1'')\<rparr>], [])"
proof -
  let ?P = "example_platform [''c1'', ''c2''] [(''c1'', example_full ''c1''), (''c2'', example_full ''c2'')]"
  let ?P1 = "example_platform [''c2''] [(''c2'', example_full ''c2'')]"
  have h1: "(0::nat) < length [''c1'', ''c2''] - 1"
    and h2: "length ([] :: Container_ContainerInventory_Class list) = 0"
    and h3: "[''c2''] \<noteq> []"
    and h4: "length ([] :: Container_ContainerInventory_Class list) = length [''c2''] - 1"
    by simp_all
  have i1: "InspectContainer ?P ([''c1'', ''c2''] ! 0) [] = Inr (example_record ''c1'', [])"
    by (simp add: example_full_inspected)
  have i2: "InspectContainer ?P1 ([''c2''] ! (length [''c2''] - 1)) [] = Inr (example_record ''c2'', [])"
    by (simp add: example_full_inspected)
  have n: "2 \<le> length (listContainer ?P True)"
    by (simp add: example_platform_members)
  note w = stamp_out_of_bounds [of "[''c1'', ''c2'']" ?P "''host1''"]
  note w1 = stamp_out_of_bounds [of "[''c2'']" ?P1 "''host1''"]
  have a: "\<not> length [''c1'', ''c2''] - 1 < length ([] @ [example_record ''c1''])"
    and b: "QueryAll_loop ?P ''host1'' [''c1'', ''c2''] 0 ([], []) = Inl OutOfBounds"
    using w h1 h2 i1 by blast+
  have c: "QueryAll_loop ?P1 ''host1'' [''c2''] (length [''c2''] - 1) ([], []) =
     Inr ([] @ [(example_record ''c2'')\<lparr>ImageId := Some (Some ''host1'')\<rparr>], [])"
    using w1 h3 h4 i2 by blast
  have d: "QueryAll ?P \<noteq>
     Inr ([example_record ''c1'', (example_record ''c2'')\<lparr>ImageId := Some (Some ''host1'')\<rparr>], [])"
    using w n by blast
  from h1 h2 i1 a b h3 h4 i2 c n d show ?thesis
    by blast
qed

lemma QueryAll_single:
  assumes "listContainer P True = [ident]"
      and "InspectContainer P ident [] = Inr (inst, lg')"
  shows "QueryAll P =
           Inr ([inst\<lparr>ImageId := Some (Some
                   (if fst (gethostname P) \<noteq> 0 then '''' else snd (gethostname P)))\<rparr>], lg')"
  using QueryAll_loop_last [of "[ident]" "[]" P "[]" inst lg']
  by (simp add: QueryAll_unfold assms)

lemma QueryAll_empty:
  assumes "listContainer P True = []"
  shows "QueryAll P = Inr ([], [])"
  by (simp add: QueryAll_unfold assms QueryAll_loop_done)

text \<open>
  C3 asks that after \<open>QueryAll\<close> every record, one per identifier, has the host name in
  its ImageID. The loop writes the host name at index \<open>size - 1\<close> of the vector in every
  iteration, not at the record just appended. With one container that record is the one
  stamped. With two containers whose inspections both succeed, the first iteration indexes
  a vector of one record at 1: \<open>QueryAll\<close> ends in the fault and returns no record.
\<close>

theorem QueryAll_two_containers:
  "listContainer
     (example_platform [''abc123'', ''def456'']
        [(''abc123'', example_full ''abc123''), (''def456'', example_full ''def456'')]) True =
     [''abc123'', ''def456''] \<and>
   InspectContainer
     (example_platform [''abc123'', ''def456'']
        [(''abc123'', example_full ''abc123''), (''def456'', example_full ''def456'')])
     ''abc123'' [] = Inr (example_record ''abc123'', []) \<and>
   InspectContainer
     (example_platform [''abc123'', ''def456'']
        [(''abc123'', example_full ''abc123''), (''def456'', example_full ''def456'')])
     ''def456'' [] = Inr (example_record ''def456'', []) \<and>
   QueryAll
     (example_platform [''abc123'', ''def456'']
        [(''abc123'', example_full ''abc123''), (''def456'', example_full ''def456'')]) =
     Inl OutOfBounds \<and>
   QueryAll (example_platform [''abc123''] [(''abc123'', example_full ''abc123'')]) =
     Inr ([(example_record ''abc123'')\<lparr>ImageId := Some (Some ''host1'')\<rparr>], [])"
proof -
  let ?P = "example_platform [''abc123'', ''def456'']
        [(''abc123'', example_full ''abc123''), (''def456'', example_full ''def456'')]"
  let ?P1 = "example_platform [''abc123''] [(''abc123'', example_full ''abc123'')]"
  have ids: "listContainer ?P True = [''abc123'', ''def456'']"
    by (simp add: example_platform_members)
  have a: "InspectContainer ?P ''abc123'' [] = Inr (example_record ''abc123'', [])"
    and b: "InspectContainer ?P ''def456'' [] = Inr (example_record ''def456'', [])"
    by (simp_all add: example_full_inspected)
  have two: "QueryAll ?P = Inl OutOfBounds"
    by (rule QueryAll_first_stamp [where inst = "example_record ''abc123''" and lg' = "[]"])
       (simp_all add: ids a)
  have one: "QueryAll ?P1 =
     Inr ([(example_record ''abc123'')\<lparr>ImageId := Some (Some ''host1'')\<rparr>], [])"
    using QueryAll_single [of ?P1 "''abc123''" "example_record ''abc123''" "[]"]
    by (simp add: example_platform_members example_full_inspected)
  from ids a b two one show ?thesis
    by blast
qed

text \<open>
  C5 asks that \<open>QueryAll\<close> returns one record per identifier, in the order of the
  identifiers, when every inspection succeeds. With three containers whose inspections all
  succeed, \<open>QueryAll\<close> returns no record: the stamp of the first iteration indexes a
  vector of one record at 2.
\<close>

theorem QueryAll_three_containers:
  "listContainer
     (example_platform [''c1'', ''c2'', ''c3'']
        [(''c1'', example_full ''c1''), (''c2'', example_full ''c2''), (''c3'', example_full ''c3'')])
     True = [''c1'', ''c2'', ''c3''] \<and>
   InspectContainer
     (example_platform [''c1'', ''c2'', ''c3'']
        [(''c1'', example_full ''c1''), (''c2'', example_full ''c2''), (''c3'', example_full ''c3'')])
     ''c1'' [] = Inr (example_record ''c1'', []) \<and>
   InspectContainer
     (example_platform [''c1'', ''c2'', ''c3'']
        [(''c1'', example_full ''c1''), (''c2'', example_full ''c2''), (''c3'', example_full ''c3'')])
     ''c2'' [] = Inr (example_record ''c2'', []) \<and>
   InspectContainer
     (example_platform [''c1'', ''c2'', ''c3'']
        [(''c1'', example_full ''c1''), (''c2'', example_full ''c2''), (''c3'', example_full ''c3'')])
     ''c3'' [] = Inr (example_record ''c3'', []) \<and>
   QueryAll
     (example_platform [''c1'', ''c2'', ''c3'']
        [(''c1'', example_full ''c1''), (''c2'', example_full ''c2''), (''c3'', example_full ''c3'')]) =
     Inl OutOfBounds"
proof -
  let ?P = "example_platform [''c1'', ''c2'', ''c3'']
        [(''c1'', example_full ''c1''), (''c2'', example_full ''c2''), (''c3'', example_full ''c3'')]"
  have ids: "listContainer ?P True = [''c1'', ''c2'', ''c3'']"
    by (simp add: example_platform_members)
  have a: "InspectContainer ?P ''c1'' [] = Inr (example_record ''c1'', [])"
    and b: "InspectContainer ?P ''c2'' [] = Inr (example_record ''c2'', [])"
    and c: "InspectContainer ?P ''c3'' [] = Inr (example_record ''c3'', [])"
    by (simp_all add: example_full_inspected)
  have "QueryAll ?P = Inl OutOfBounds"
    by (rule QueryAll_first_stamp [where inst = "example_record ''c1''" and lg' = "[]"])
       (simp_all add: ids a)
  with ids a b c show ?thesis
    by blast
qed

section \<open>Absent documents and sub-objects in a collection\<close>

text \<open>
  What \<open>InspectContainer\<close> does on a document without Config, whenever it returns: the
  four properties of the Config extractor are unset and the warning with the document's
  id is in the log.
\<close>

lemma InspectContainer_without_Config:
  assumes "getResponse P [restDockerInspect ident] = Some response0 # rest"
      and "cJSON_GetObjectItem response0 ''Config'' = None"
      and "InspectContainer P ident lg = Inr (r, lg')"
  shows "ContainerHostname r = None \<and> EnvironmentVar r = None \<and> Command r = None \<and>
         ComposeGroup r = None \<and>
         (\<exists>idItem. cJSON_GetObjectItem response0 ''Id'' = Some idItem \<and>
            Syslog LOG_WARNING
              ''Attempt in ObtainContainerConfig to get container %s config information returned null''
              (valuestring idItem) \<in> set lg')"
proof -
  from InspectContainer_returns [OF assms(1,3)]
  obtain idItem imageItem createdItem inst1 lg1 inst2 lg2 where
        top: "cJSON_GetObjectItem response0 ''Id'' = Some idItem"
    and c: "ObtainContainerConfig P
              (new_instance\<lparr>InstanceID := Some (valuestring idItem),
                             ImageId := Some (valuestring imageItem),
                             CreatedTime := Some (valuestring createdItem)\<rparr>) response0 lg =
            Inr (inst1, lg1)"
    and s: "ObtainContainerState inst1 response0 lg1 = Inr (inst2, lg2)"
    and h: "ObtainContainerHostConfig P inst2 response0 lg2 = Inr (r, lg')"
    by blast
  from c have inst1: "inst1 = new_instance\<lparr>InstanceID := Some (valuestring idItem),
                             ImageId := Some (valuestring imageItem),
                             CreatedTime := Some (valuestring createdItem)\<rparr>"
    and lg1: "lg1 = lg @ [Syslog LOG_WARNING
              ''Attempt in ObtainContainerConfig to get container %s config information returned null''
              (valuestring idItem)]"
    by (simp_all add: ObtainContainerConfig_absent [OF assms(2)] top)
  have keep: "ContainerHostname r = ContainerHostname inst1" "EnvironmentVar r = EnvironmentVar inst1"
    "Command r = Command inst1" "ComposeGroup r = ComposeGroup inst1" "set lg1 \<subseteq> set lg'"
    using ObtainContainerState_keeps_config [OF s] ObtainContainerHostConfig_keeps_config [OF h]
    by auto
  have "Syslog LOG_WARNING
              ''Attempt in ObtainContainerConfig to get container %s config information returned null''
              (valuestring idItem) \<in> set lg'"
    using keep(5) unfolding lg1 by auto
  with top keep(1-4) show ?thesis
    by (simp add: inst1 new_instance_def)
qed

text \<open>
  C7 asks that an identifier whose inspection yields no document gives one warning with
  the identifier and a record with no property set, and that the collection goes on with
  the remaining identifiers. \<open>InspectContainer\<close> does the former. In a collection of
  two containers where the first has no document, the stamp that follows the append
  indexes a vector of one record at 1: \<open>QueryAll\<close> ends in the fault and the second
  container is not inspected.
\<close>

theorem QueryAll_after_absent_document:
  "listContainer (example_platform [''gone'', ''abc123''] [(''abc123'', example_full ''abc123'')])
     True = [''gone'', ''abc123''] \<and>
   getResponse (example_platform [''gone'', ''abc123''] [(''abc123'', example_full ''abc123'')])
     [restDockerInspect ''gone''] = [None] \<and>
   InspectContainer (example_platform [''gone'', ''abc123''] [(''abc123'', example_full ''abc123'')])
     ''gone'' [] =
     Inr (new_instance,
          [Syslog LOG_WARNING ''Attempt in InspectContainer to inspect %s returned null''
             (Some ''gone'')]) \<and>
   QueryAll (example_platform [''gone'', ''abc123''] [(''abc123'', example_full ''abc123'')]) =
     Inl OutOfBounds"
proof -
  let ?P = "example_platform [''gone'', ''abc123''] [(''abc123'', example_full ''abc123'')]"
  have ids: "listContainer ?P True = [''gone'', ''abc123'']"
    by (simp add: example_platform_members)
  have resp: "getResponse ?P [restDockerInspect ''gone''] = [None]"
    by (simp add: example_platform_response)
  have a: "InspectContainer ?P ''gone'' [] =
     Inr (new_instance,
          [Syslog LOG_WARNING ''Attempt in InspectContainer to inspect %s returned null''
             (Some ''gone'')])"
    by (simp add: example_absent_inspected)
  have "QueryAll ?P = Inl OutOfBounds"
    by (rule QueryAll_first_stamp [where inst = new_instance and
          lg' = "[Syslog LOG_WARNING ''Attempt in InspectContainer to inspect %s returned null''
             (Some ''gone'')]"])
       (simp_all add: ids a)
  with ids resp a show ?thesis
    by blast
qed

text \<open>
  C8 asks that a document without Config gives a record whose ContainerHostname,
  EnvironmentVar, Command and ComposeGroup are unset and a warning with the container id,
  and that records for the later identifiers are still produced. \<open>InspectContainer\<close>
  does the former. In a collection of two containers where the first document has no
  Config, the stamp that follows the append indexes a vector of one record at 1:
  \<open>QueryAll\<close> ends in the fault and no record is produced for the second container.
\<close>

theorem QueryAll_after_missing_Config:
  "listContainer
     (example_platform [''bare'', ''abc123'']
        [(''bare'', example_no_config ''bare''), (''abc123'', example_full ''abc123'')]) True =
     [''bare'', ''abc123''] \<and>
   cJSON_GetObjectItem (example_no_config ''bare'') ''Config'' = None \<and>
   InspectContainer
     (example_platform [''bare'', ''abc123'']
        [(''bare'', example_no_config ''bare''), (''abc123'', example_full ''abc123'')])
     ''bare'' [] =
     Inr (new_instance\<lparr>InstanceID := Some (Some ''bare''), ImageId := Some (Some ''img1''),
            CreatedTime := Some (Some ''2024-01-01T00:00:00Z''), ExitCode := Some 0,
            State := Some (Some ''Running''), Links := Some (Some ''{}''),
            Ports := Some (Some ''{}'')\<rparr>,
          [Syslog LOG_WARNING
             ''Attempt in ObtainContainerConfig to get container %s config information returned null''
             (Some ''bare'')]) \<and>
   InspectContainer
     (example_platform [''bare'', ''abc123'']
        [(''bare'', example_no_config ''bare''), (''abc123'', example_full ''abc123'')])
     ''abc123'' [] = Inr (example_record ''abc123'', []) \<and>
   QueryAll
     (example_platform [''bare'', ''abc123'']
        [(''bare'', example_no_config ''bare''), (''abc123'', example_full ''abc123'')]) =
     Inl OutOfBounds"
proof -
  let ?P = "example_platform [''bare'', ''abc123'']
        [(''bare'', example_no_config ''bare''), (''abc123'', example_full ''abc123'')]"
  let ?r = "new_instance\<lparr>InstanceID := Some (Some ''bare''), ImageId := Some (Some ''img1''),
            CreatedTime := Some (Some ''2024-01-01T00:00:00Z''), ExitCode := Some 0,
            State := Some (Some ''Running''), Links := Some (Some ''{}''),
            Ports := Some (Some ''{}'')\<rparr>"
  let ?w = "[Syslog LOG_WARNING
             ''Attempt in ObtainContainerConfig to get container %s config information returned null''
             (Some ''bare'')]"
  have ids: "listContainer ?P True = [''bare'', ''abc123'']"
    by (simp add: example_platform_members)
  have cfg: "cJSON_GetObjectItem (example_no_config ''bare'') ''Config'' = None"
    by (simp add: example_no_config_def example_document_sub)
  have a: "InspectContainer ?P ''bare'' [] = Inr (?r, ?w)"
    using example_no_config_inspected [of _ "''bare''" _ "[]"] by simp
  have b: "InspectContainer ?P ''abc123'' [] = Inr (example_record ''abc123'', [])"
    by (simp add: example_full_inspected)
  have "QueryAll ?P = Inl OutOfBounds"
    by (rule QueryAll_first_stamp [where inst = ?r and lg' = ?w]) (simp_all add: ids a)
  with ids cfg a b show ?thesis
    by blast
qed

end
